theory Spec2Isabelle
  imports Complex_Main
begin

section \<open>Numbers, dates and exceptions of the JavaScript source\<close>

text \<open>
  The source computes with IEEE doubles. Finite numbers are modelled as exact reals
  (rounding is not modelled). Where the source can produce a value that is not a finite
  number (a division by zero, an arithmetic operation on \<open>undefined\<close>) the result is a
  \<open>jsnum\<close>, and the comparisons on it are JavaScript's: every comparison with \<open>NaN\<close>
  is false. The sign of zero is not modelled: a zero divisor counts as \<open>+0\<close>.
\<close>

datatype jsnum = Num real | PInf | NInf | NaN

fun js_add :: "jsnum \<Rightarrow> jsnum \<Rightarrow> jsnum" where
  "js_add NaN _ = NaN"
| "js_add _ NaN = NaN"
| "js_add (Num a) (Num b) = Num (a + b)"
| "js_add PInf NInf = NaN"
| "js_add NInf PInf = NaN"
| "js_add PInf _ = PInf"
| "js_add _ PInf = PInf"
| "js_add NInf _ = NInf"
| "js_add _ NInf = NInf"

fun js_div :: "jsnum \<Rightarrow> jsnum \<Rightarrow> jsnum" where
  "js_div NaN _ = NaN"
| "js_div _ NaN = NaN"
| "js_div (Num a) (Num b) =
     (if b = 0 then (if a = 0 then NaN else if 0 < a then PInf else NInf)
      else Num (a / b))"
| "js_div (Num a) _ = Num 0"
| "js_div PInf (Num b) = (if b < 0 then NInf else PInf)"
| "js_div NInf (Num b) = (if b < 0 then PInf else NInf)"
| "js_div _ _ = NaN"

fun js_gt :: "jsnum \<Rightarrow> jsnum \<Rightarrow> bool" where
  "js_gt NaN _ = False"
| "js_gt _ NaN = False"
| "js_gt (Num a) (Num b) = (b < a)"
| "js_gt PInf PInf = False"
| "js_gt PInf _ = True"
| "js_gt NInf _ = False"
| "js_gt _ NInf = True"
| "js_gt _ PInf = False"

fun js_ge :: "jsnum \<Rightarrow> jsnum \<Rightarrow> bool" where
  "js_ge NaN _ = False"
| "js_ge _ NaN = False"
| "js_ge (Num a) (Num b) = (b \<le> a)"
| "js_ge PInf _ = True"
| "js_ge _ NInf = True"
| "js_ge NInf _ = False"
| "js_ge _ PInf = False"

text \<open>Truthiness of a number: \<open>0\<close> and \<open>NaN\<close> are falsy.\<close>

fun js_truthy :: "jsnum \<Rightarrow> bool" where
  "js_truthy NaN = False"
| "js_truthy (Num a) = (a \<noteq> 0)"
| "js_truthy _ = True"

text \<open>
  A property that may be absent (\<open>undefined\<close>) is an option. \<open>truthy_num\<close> and
  \<open>truthy_str\<close> are the tests \<open>if (x)\<close> on such a property; \<open>num_or\<close> and \<open>str_or\<close> are
  \<open>x || d\<close>.
\<close>

definition truthy_num :: "real option \<Rightarrow> bool" where
  "truthy_num x = (case x of None \<Rightarrow> False | Some v \<Rightarrow> v \<noteq> 0)"

definition truthy_str :: "string option \<Rightarrow> bool" where
  "truthy_str x = (case x of None \<Rightarrow> False | Some s \<Rightarrow> s \<noteq> [])"

definition num_or :: "real option \<Rightarrow> real \<Rightarrow> real" where
  "num_or x d = (case x of None \<Rightarrow> d | Some v \<Rightarrow> if v = 0 then d else v)"

definition str_or :: "string option \<Rightarrow> string \<Rightarrow> string" where
  "str_or x d = (case x of None \<Rightarrow> d | Some s \<Rightarrow> if s = [] then d else s)"

text \<open>
  \<open>new Date()\<close> is a reading of the clock, passed to every operation that takes one:
  \<open>iso_date\<close> is \<open>toISOString().split('T')[0]\<close>, the other fields are \<open>getUTCDay()\<close>,
  \<open>getUTCHours()\<close> and \<open>getUTCMinutes()\<close>. An operation that reads the clock several
  times gets one reading.
\<close>

record js_date =
  iso_date :: string
  utc_day :: nat
  utc_hours :: nat
  utc_minutes :: nat

text \<open>A thrown value: \<open>new Error(message)\<close>, or the \<open>TypeError\<close> of a property read on
  \<open>undefined\<close>.\<close>

datatype exn = Error string | TypeError string

fun exn_message :: "exn \<Rightarrow> string" where
  "exn_message (Error m) = m"
| "exn_message (TypeError m) = m"

section \<open>DrawdownMonitor (electron/fxify/drawdown-monitor.js)\<close>

record history_item =
  h_date :: js_date
  h_dailyDrawdown :: real
  h_totalDrawdown :: real
  h_balance :: real
  h_equity :: real

record drawdown_monitor =
  dailyDrawdowns :: "string \<rightharpoonup> real"
  maxDailyDrawdown :: real
  totalDrawdown :: real
  maxTotalDrawdown :: real
  initialBalance :: real
  startOfDayBalance :: real
  currentBalance :: real
  currentEquity :: real
  peakBalance :: real
  drawdownHistory :: "history_item list"
  lastUpdate :: js_date

datatype warning_level = safe | warning | critical

record drawdown_status =
  st_dailyDrawdown :: real
  st_totalDrawdown :: real
  st_dailyLimitExceeded :: bool
  st_totalLimitExceeded :: bool
  st_warningLevel :: warning_level
  st_currentBalance :: real
  st_currentEquity :: real
  st_initialBalance :: real
  st_startOfDayBalance :: real
  st_peakBalance :: real
  st_maxDailyLimit :: real
  st_maxTotalLimit :: real

definition new_DrawdownMonitor :: "js_date \<Rightarrow> drawdown_monitor" where
  "new_DrawdownMonitor now =
     \<lparr>dailyDrawdowns = Map.empty, maxDailyDrawdown = 0.03, totalDrawdown = 0,
      maxTotalDrawdown = 0.06, initialBalance = 0, startOfDayBalance = 0,
      currentBalance = 0, currentEquity = 0, peakBalance = 0, drawdownHistory = [],
      lastUpdate = now\<rparr>"

definition registerDayStart :: "drawdown_monitor \<Rightarrow> js_date \<Rightarrow> drawdown_monitor" where
  "registerDayStart m now =
     m\<lparr>startOfDayBalance := currentBalance m,
       dailyDrawdowns := (dailyDrawdowns m)(iso_date now \<mapsto> 0)\<rparr>"

definition initialize :: "drawdown_monitor \<Rightarrow> js_date \<Rightarrow> real \<Rightarrow> real \<Rightarrow> real \<Rightarrow> drawdown_monitor" where
  "initialize m now initialBalance' maxDaily maxTotal =
     registerDayStart
       (m\<lparr>initialBalance := initialBalance', startOfDayBalance := initialBalance',
          currentBalance := initialBalance', currentEquity := initialBalance',
          peakBalance := initialBalance', maxDailyDrawdown := maxDaily,
          maxTotalDrawdown := maxTotal, dailyDrawdowns := Map.empty,
          drawdownHistory := []\<rparr>)
       now"

definition calculateDrawdowns :: "drawdown_monitor \<Rightarrow> js_date \<Rightarrow> drawdown_monitor" where
  "calculateDrawdowns m now =
     (let dailyDrawdown =
            (if 0 < startOfDayBalance m
             then max 0 ((startOfDayBalance m - currentEquity m) / startOfDayBalance m)
             else 0);
          m1 = m\<lparr>dailyDrawdowns := (dailyDrawdowns m)(iso_date now \<mapsto> dailyDrawdown)\<rparr>
      in if 0 < peakBalance m1
         then m1\<lparr>totalDrawdown := max 0 ((peakBalance m1 - currentEquity m1) / peakBalance m1)\<rparr>
         else if 0 < initialBalance m1
         then m1\<lparr>totalDrawdown :=
                    max 0 ((initialBalance m1 - currentEquity m1) / initialBalance m1)\<rparr>
         else m1)"

definition getCurrentDailyDrawdown :: "drawdown_monitor \<Rightarrow> js_date \<Rightarrow> real" where
  "getCurrentDailyDrawdown m now =
     (case dailyDrawdowns m (iso_date now) of None \<Rightarrow> 0 | Some d \<Rightarrow> d)"

definition getCurrentTotalDrawdown :: "drawdown_monitor \<Rightarrow> real" where
  "getCurrentTotalDrawdown m = totalDrawdown m"

definition isDailyLimitExceeded :: "drawdown_monitor \<Rightarrow> js_date \<Rightarrow> bool" where
  "isDailyLimitExceeded m now = (maxDailyDrawdown m < getCurrentDailyDrawdown m now)"

definition isTotalLimitExceeded :: "drawdown_monitor \<Rightarrow> bool" where
  "isTotalLimitExceeded m = (maxTotalDrawdown m < totalDrawdown m)"

definition getWarningLevel :: "drawdown_monitor \<Rightarrow> js_date \<Rightarrow> warning_level" where
  "getWarningLevel m now =
     (let dailyDrawdownPercentage =
            js_div (Num (getCurrentDailyDrawdown m now)) (Num (maxDailyDrawdown m));
          totalDrawdownPercentage = js_div (Num (totalDrawdown m)) (Num (maxTotalDrawdown m))
      in if js_ge dailyDrawdownPercentage (Num 1) \<or> js_ge totalDrawdownPercentage (Num 1)
         then critical
         else if js_ge dailyDrawdownPercentage (Num 0.8) \<or> js_ge totalDrawdownPercentage (Num 0.8)
         then warning
         else safe)"

definition resetMonitor :: "drawdown_monitor \<Rightarrow> js_date \<Rightarrow> drawdown_monitor" where
  "resetMonitor m now =
     m\<lparr>dailyDrawdowns := Map.empty, totalDrawdown := 0, initialBalance := 0,
       startOfDayBalance := 0, currentBalance := 0, currentEquity := 0, peakBalance := 0,
       drawdownHistory := [], lastUpdate := now\<rparr>"

text \<open>\<open>slice(-1000)\<close> keeps the last 1000 items.\<close>

definition updateDrawdownHistory :: "drawdown_monitor \<Rightarrow> js_date \<Rightarrow> drawdown_monitor" where
  "updateDrawdownHistory m now =
     (let h = drawdownHistory m @
                [\<lparr>h_date = now, h_dailyDrawdown = getCurrentDailyDrawdown m now,
                  h_totalDrawdown = totalDrawdown m, h_balance = currentBalance m,
                  h_equity = currentEquity m\<rparr>]
      in m\<lparr>drawdownHistory := (if 1000 < length h then drop (length h - 1000) h else h)\<rparr>)"

text \<open>\<open>updateBalance(newBalance, equity = null)\<close>: an absent or null equity is \<open>None\<close>.\<close>

definition updateBalance :: "drawdown_monitor \<Rightarrow> js_date \<Rightarrow> real \<Rightarrow> real option \<Rightarrow> drawdown_monitor" where
  "updateBalance m now newBalance equity =
     (let m1 = m\<lparr>currentBalance := newBalance,
                 currentEquity := (case equity of Some e \<Rightarrow> e | None \<Rightarrow> newBalance)\<rparr>;
          m2 = (if peakBalance m1 < newBalance then m1\<lparr>peakBalance := newBalance\<rparr> else m1);
          m3 = (if iso_date now \<noteq> iso_date (lastUpdate m2) then registerDayStart m2 now else m2);
          m4 = calculateDrawdowns m3 now;
          m5 = updateDrawdownHistory m4 now
      in m5\<lparr>lastUpdate := now\<rparr>)"

definition getStatus :: "drawdown_monitor \<Rightarrow> js_date \<Rightarrow> drawdown_status" where
  "getStatus m now =
     \<lparr>st_dailyDrawdown = getCurrentDailyDrawdown m now,
      st_totalDrawdown = totalDrawdown m,
      st_dailyLimitExceeded = isDailyLimitExceeded m now,
      st_totalLimitExceeded = isTotalLimitExceeded m,
      st_warningLevel = getWarningLevel m now,
      st_currentBalance = currentBalance m,
      st_currentEquity = currentEquity m,
      st_initialBalance = initialBalance m,
      st_startOfDayBalance = startOfDayBalance m,
      st_peakBalance = peakBalance m,
      st_maxDailyLimit = maxDailyDrawdown m,
      st_maxTotalLimit = maxTotalDrawdown m\<rparr>"

section \<open>Profiles, orders and validation results\<close>

text \<open>
  An FXIFY profile as \<open>createProfile\<close> builds it (electron/fxify/fxify-mode-manager.js);
  \<open>tradeSizeLimit\<close> is a number or \<open>null\<close>. The identifier, timestamps and
  \<open>customSettings\<close> take no part in validation and are left out.
\<close>

record profile =
  p_name :: string
  accountType :: string
  profitTarget :: real
  p_maxDailyDrawdown :: real
  p_maxTotalDrawdown :: real
  minTradingDays :: real
  tradeSizeLimit :: "real option"
  allowNewsTrading :: bool

text \<open>The order parameters the source reads; every property may be absent.\<close>

record order =
  symbol :: "string option"
  direction :: "string option"
  volume :: "real option"
  price :: "real option"
  stopLoss :: "real option"
  takeProfit :: "real option"
  comment :: "string option"
  pipValue :: "real option"
  pipSize :: "real option"

text \<open>\<open>{...order, potentialLoss}\<close>, the request the rules engine evaluates.\<close>

record trade_request = order +
  potentialLoss :: jsnum

definition with_potentialLoss :: "order \<Rightarrow> jsnum \<Rightarrow> trade_request" where
  "with_potentialLoss ord pl =
     \<lparr>symbol = symbol ord, direction = direction ord, volume = volume ord, price = price ord,
      stopLoss = stopLoss ord, takeProfit = takeProfit ord, comment = comment ord,
      pipValue = pipValue ord, pipSize = pipSize ord, potentialLoss = pl\<rparr>"

text \<open>The \<open>details\<close> objects of the violations, one constructor per shape.\<close>

datatype details =
    NoDetails
  | CurrentDetails string real real
  | PotentialDetails string real jsnum real
  | WarningLevelDetails warning_level
  | TradeSizeDetails real real
  | SymbolDetails string
  | NewsDetails "string option" "string list"
  | HoursDetails nat nat nat

text \<open>
  A violation \<open>{rule, severity, message, details}\<close>. The message templates are kept with
  \<open>_\<close> in the place of an interpolated number (the numbers are in \<open>details\<close>);
  interpolated strings are written out.
\<close>

record violation =
  rule :: string
  severity :: string
  message :: "string option"
  details :: details

text \<open>\<open>{valid, rules}\<close>; \<open>rules\<close> is \<open>None\<close> where the source returns \<open>{valid: true}\<close>
  with no \<open>rules\<close> property.\<close>

record validation_result =
  valid :: bool
  rules :: "violation list option"

record news_status =
  safeToTrade :: bool
  upcomingEvents :: "string list"
  activeEvents :: "string list"
  recommendedAction :: string

text \<open>The economic calendar is a lookup outside the core: \<open>isHighImpactEventActive(symbol)\<close>,
  which may throw.\<close>

type_synonym calendar = "string \<Rightarrow> exn + bool"

section \<open>PreExecutionValidator (electron/fxify/pre-execution-validator.js)\<close>

text \<open>
  The validator is constructed with a mode manager object and calls it through
  \<open>this.fxifyModeManager\<close>. That object is a record of what the validator reads and
  calls; a call or property read that may throw has a sum type, \<open>Inl\<close> the exception.
  \<open>mo_getDrawdownStatus\<close> is \<open>rulesEngine.getDrawdownStatus()\<close>, \<open>mo_currentBalance\<close> is
  \<open>rulesEngine.currentBalance\<close>, \<open>mo_tradingCalendar\<close> is \<open>rulesEngine.tradingCalendar\<close>.
\<close>

record mode_manager_obj =
  mo_isFXIFYModeActive :: bool
  mo_getActiveProfile :: "exn + profile option"
  mo_getDrawdownStatus :: "exn + drawdown_status"
  mo_currentBalance :: "exn + real"
  mo_tradingCalendar :: "calendar option"
  mo_validateTradeAgainstRules :: "trade_request \<Rightarrow> exn + validation_result"

definition getAccountSize :: "mode_manager_obj \<Rightarrow> real" where
  "getAccountSize mm =
     (case mo_currentBalance mm of
        Inl e \<Rightarrow> 10000
      | Inr b \<Rightarrow> (if b = 0 then 10000 else b))"

definition checkDrawdownLimits_try :: "mode_manager_obj \<Rightarrow> jsnum \<Rightarrow> exn + validation_result" where
  "checkDrawdownLimits_try mm potentialLoss' =
     (case mo_getActiveProfile mm of
        Inl e \<Rightarrow> Inl e
      | Inr None \<Rightarrow> Inr \<lparr>valid = True, rules = None\<rparr>
      | Inr (Some prof) \<Rightarrow>
          (case mo_getDrawdownStatus mm of
             Inl e \<Rightarrow> Inl e
           | Inr drawdownStatus \<Rightarrow>
               (let accountSize = getAccountSize mm;
                    potentialDaily = js_add (Num (st_dailyDrawdown drawdownStatus))
                                       (js_div potentialLoss' (Num accountSize));
                    potentialTotal = js_add (Num (st_totalDrawdown drawdownStatus))
                                       (js_div potentialLoss' (Num accountSize))
                in if js_gt potentialDaily (Num (p_maxDailyDrawdown prof))
                   then Inr \<lparr>valid = False, rules = Some
                          [\<lparr>rule = ''drawdown_limit'', severity = ''error'',
                            message = Some ''This trade could exceed daily drawdown limit of _% (potential: _%)'',
                            details = PotentialDetails ''daily_potential''
                              (st_dailyDrawdown drawdownStatus) potentialDaily
                              (p_maxDailyDrawdown prof)\<rparr>]\<rparr>
                   else if js_gt potentialTotal (Num (p_maxTotalDrawdown prof))
                   then Inr \<lparr>valid = False, rules = Some
                          [\<lparr>rule = ''drawdown_limit'', severity = ''error'',
                            message = Some ''This trade could exceed total drawdown limit of _% (potential: _%)'',
                            details = PotentialDetails ''total_potential''
                              (st_totalDrawdown drawdownStatus) potentialTotal
                              (p_maxTotalDrawdown prof)\<rparr>]\<rparr>
                   else if st_warningLevel drawdownStatus = critical
                   then Inr \<lparr>valid = True, rules = Some
                          [\<lparr>rule = ''drawdown_warning'', severity = ''warning'',
                            message = Some ''You are approaching drawdown limits (daily: _%, total: _%)'',
                            details = WarningLevelDetails critical\<rparr>]\<rparr>
                   else Inr \<lparr>valid = True, rules = None\<rparr>)))"

text \<open>The \<open>catch\<close> of \<open>checkDrawdownLimits\<close> returns \<open>{ valid: true }\<close>
  ("Default to allowing trade on error").\<close>

definition checkDrawdownLimits :: "mode_manager_obj \<Rightarrow> jsnum \<Rightarrow> validation_result" where
  "checkDrawdownLimits mm potentialLoss' =
     (if \<not> mo_isFXIFYModeActive mm then \<lparr>valid = True, rules = None\<rparr>
      else case checkDrawdownLimits_try mm potentialLoss' of
             Inl e \<Rightarrow> \<lparr>valid = True, rules = None\<rparr>
           | Inr r \<Rightarrow> r)"

text \<open>\<open>_isForexPair\<close>: each \<open>replace\<close> with a string pattern removes the first occurrence;
  the pattern \<open>/^[A-Z]{6}$/\<close> is six capital letters.\<close>

definition isForexPair :: "string \<Rightarrow> bool" where
  "isForexPair symb =
     (let cleanSymbol = remove1 (CHR ''-'') (remove1 (CHR ''_'') (remove1 (CHR ''/'') symb))
      in length cleanSymbol = 6 \<and> (\<forall>c \<in> set cleanSymbol. c \<in> set ''ABCDEFGHIJKLMNOPQRSTUVWXYZ''))"

definition checkTradingHours_try :: "mode_manager_obj \<Rightarrow> js_date \<Rightarrow> string option \<Rightarrow> exn + validation_result" where
  "checkTradingHours_try mm now symb =
     (case mo_getActiveProfile mm of
        Inl e \<Rightarrow> Inl e
      | Inr None \<Rightarrow> Inr \<lparr>valid = True, rules = None\<rparr>
      | Inr (Some prof) \<Rightarrow>
          (let dayOfWeek = utc_day now; hours = utc_hours now; minutes = utc_minutes now
           in if dayOfWeek = 0 \<or> dayOfWeek = 6
              then Inr \<lparr>valid = False, rules = Some
                     [\<lparr>rule = ''trading_hours'', severity = ''error'',
                       message = Some ''Trading is not allowed during weekends'',
                       details = HoursDetails dayOfWeek hours minutes\<rparr>]\<rparr>
              else if (case symb of None \<Rightarrow> False | Some s \<Rightarrow> s \<noteq> [] \<and> isForexPair s)
              then Inr \<lparr>valid = True, rules = None\<rparr>
              else Inr \<lparr>valid = True, rules = None\<rparr>))"

definition checkTradingHours :: "mode_manager_obj \<Rightarrow> js_date \<Rightarrow> string option \<Rightarrow> validation_result" where
  "checkTradingHours mm now symb =
     (if \<not> mo_isFXIFYModeActive mm then \<lparr>valid = True, rules = None\<rparr>
      else case checkTradingHours_try mm now symb of
             Inl e \<Rightarrow> \<lparr>valid = True, rules = None\<rparr>
           | Inr r \<Rightarrow> r)"

definition proceed :: news_status where
  "proceed = \<lparr>safeToTrade = True, upcomingEvents = [], activeEvents = [],
              recommendedAction = ''proceed''\<rparr>"

text \<open>
  \<open>checkNewsEvents\<close> never consults the calendar: where one is attached it extracts the
  currency codes of the symbol (a value it does not use) and returns the same "safe to
  trade" object as every other branch, its \<open>catch\<close> included.
\<close>

definition checkNewsEvents :: "mode_manager_obj \<Rightarrow> string option \<Rightarrow> news_status" where
  "checkNewsEvents mm symb =
     (if \<not> mo_isFXIFYModeActive mm \<or> mo_tradingCalendar mm = None then proceed
      else case mo_getActiveProfile mm of
             Inl e \<Rightarrow> proceed
           | Inr None \<Rightarrow> proceed
           | Inr (Some prof) \<Rightarrow>
               (if allowNewsTrading prof \<or> \<not> truthy_str symb then proceed
                else if mo_tradingCalendar mm \<noteq> None then proceed
                else proceed))"

text \<open>The estimate of the potential loss at the head of \<open>validateOrder\<close>. A stop loss
  without a price gives \<open>Math.abs(undefined - stopLoss)\<close>, which is \<open>NaN\<close>.\<close>

definition estimatePotentialLoss :: "mode_manager_obj \<Rightarrow> order \<Rightarrow> jsnum" where
  "estimatePotentialLoss mm ord =
     (case (volume ord, stopLoss ord) of
        (Some v, Some sl) \<Rightarrow>
          (if v \<noteq> 0 \<and> sl \<noteq> 0
           then (case price ord of
                   None \<Rightarrow> NaN
                 | Some p \<Rightarrow>
                     (let pipValue' = num_or (pipValue ord) 10;
                          stopLossPips = \<bar>p - sl\<bar> / num_or (pipSize ord) 0.0001
                      in Num (v * stopLossPips * pipValue')))
           else Num (getAccountSize mm * 0.01))
      | _ \<Rightarrow> Num (getAccountSize mm * 0.01))"

definition validateOrder_try :: "mode_manager_obj \<Rightarrow> js_date \<Rightarrow> order \<Rightarrow> exn + validation_result" where
  "validateOrder_try mm now ord =
     (case mo_getActiveProfile mm of
        Inl e \<Rightarrow> Inl e
      | Inr None \<Rightarrow> Inr \<lparr>valid = True, rules = Some []\<rparr>
      | Inr (Some prof) \<Rightarrow>
          (let potentialLoss' = estimatePotentialLoss mm ord;
               orderWithRisk = with_potentialLoss ord potentialLoss';
               drawdownCheck = checkDrawdownLimits mm potentialLoss'
           in if \<not> valid drawdownCheck then Inr drawdownCheck
              else let tradingHoursCheck = checkTradingHours mm now (symbol ord)
              in if \<not> valid tradingHoursCheck then Inr tradingHoursCheck
              else let newsEventsCheck = checkNewsEvents mm (symbol ord)
              in if \<not> safeToTrade newsEventsCheck
                 then Inr \<lparr>valid = False, rules = Some
                        [\<lparr>rule = ''news_trading'', severity = ''error'',
                          message = Some (''Trading during high-impact news events is not allowed for ''
                                          @ (case symbol ord of None \<Rightarrow> ''undefined'' | Some s \<Rightarrow> s)),
                          details = NewsDetails (symbol ord) (activeEvents newsEventsCheck)\<rparr>]\<rparr>
                 else mo_validateTradeAgainstRules mm orderWithRisk))"

text \<open>The \<open>catch\<close> of \<open>validateOrder\<close> returns a failing result.\<close>

definition validateOrder :: "mode_manager_obj \<Rightarrow> js_date \<Rightarrow> order \<Rightarrow> validation_result" where
  "validateOrder mm now ord =
     (if \<not> mo_isFXIFYModeActive mm then \<lparr>valid = True, rules = Some []\<rparr>
      else case validateOrder_try mm now ord of
             Inl e \<Rightarrow> \<lparr>valid = False, rules = Some
                        [\<lparr>rule = ''validation_error'', severity = ''error'',
                          message = Some (''Order validation error: '' @ exn_message e),
                          details = NoDetails\<rparr>]\<rparr>
           | Inr r \<Rightarrow> r)"

section \<open>FXIFYRulesEngine (electron/fxify/fxify-rules-engine.js)\<close>

text \<open>What an evaluator returns: \<open>{valid, rule, severity, message, details}\<close>, all but
  \<open>valid\<close> optional.\<close>

record eval_result =
  ev_valid :: bool
  ev_rule :: "string option"
  ev_severity :: "string option"
  ev_message :: "string option"
  ev_details :: details

definition ev_ok :: eval_result where
  "ev_ok = \<lparr>ev_valid = True, ev_rule = None, ev_severity = None, ev_message = None,
            ev_details = NoDetails\<rparr>"

text \<open>
  An evaluator is a closure over the engine: it reads \<open>this.drawdownMonitor\<close> and
  \<open>this.tradingCalendar\<close> (and the clock, through the monitor), takes the request and
  the profile, and may throw.
\<close>

type_synonym evaluator =
  "drawdown_monitor \<Rightarrow> calendar option \<Rightarrow> js_date \<Rightarrow> trade_request \<Rightarrow> profile \<Rightarrow> exn + eval_result"

text \<open>The check of the potential loss inside the \<open>drawdown_limit\<close> evaluator: the
  failing result, or \<open>None\<close> where the source falls through to the warning check.\<close>

definition potential_loss_check :: "drawdown_monitor \<Rightarrow> drawdown_status \<Rightarrow> trade_request \<Rightarrow> profile \<Rightarrow> eval_result option" where
  "potential_loss_check mon drawdownStatus request prof =
     (if js_truthy (potentialLoss request)
      then (let potentialDailyDrawdown =
                  js_add (Num (st_dailyDrawdown drawdownStatus))
                    (js_div (potentialLoss request) (Num (startOfDayBalance mon)));
                potentialTotalDrawdown =
                  js_add (Num (st_totalDrawdown drawdownStatus))
                    (js_div (potentialLoss request) (Num (initialBalance mon)))
            in if js_gt potentialDailyDrawdown (Num (p_maxDailyDrawdown prof))
               then Some \<lparr>ev_valid = False, ev_rule = Some ''drawdown_limit'',
                      ev_severity = Some ''error'',
                      ev_message = Some ''This trade could exceed daily drawdown limit of _% (potential: _%)'',
                      ev_details = PotentialDetails ''daily_potential''
                        (st_dailyDrawdown drawdownStatus) potentialDailyDrawdown
                        (p_maxDailyDrawdown prof)\<rparr>
               else if js_gt potentialTotalDrawdown (Num (p_maxTotalDrawdown prof))
               then Some \<lparr>ev_valid = False, ev_rule = Some ''drawdown_limit'',
                      ev_severity = Some ''error'',
                      ev_message = Some ''This trade could exceed total drawdown limit of _% (potential: _%)'',
                      ev_details = PotentialDetails ''total_potential''
                        (st_totalDrawdown drawdownStatus) potentialTotalDrawdown
                        (p_maxTotalDrawdown prof)\<rparr>
               else None)
      else None)"

definition drawdown_limit_evaluate :: evaluator where
  "drawdown_limit_evaluate mon cal now request prof =
     (let drawdownStatus = getStatus mon now
      in if st_dailyLimitExceeded drawdownStatus
         then Inr \<lparr>ev_valid = False, ev_rule = Some ''drawdown_limit'',
                ev_severity = Some ''error'',
                ev_message = Some ''Daily drawdown limit of _% has been exceeded (current: _%)'',
                ev_details = CurrentDetails ''daily'' (st_dailyDrawdown drawdownStatus)
                               (p_maxDailyDrawdown prof)\<rparr>
         else if st_totalLimitExceeded drawdownStatus
         then Inr \<lparr>ev_valid = False, ev_rule = Some ''drawdown_limit'',
                ev_severity = Some ''error'',
                ev_message = Some ''Total drawdown limit of _% has been exceeded (current: _%)'',
                ev_details = CurrentDetails ''total'' (st_totalDrawdown drawdownStatus)
                               (p_maxTotalDrawdown prof)\<rparr>
         else case potential_loss_check mon drawdownStatus request prof of
                Some r \<Rightarrow> Inr r
              | None \<Rightarrow>
                  (if st_warningLevel drawdownStatus = critical
                   then Inr \<lparr>ev_valid = True, ev_rule = Some ''drawdown_limit'',
                          ev_severity = Some ''warning'',
                          ev_message = Some ''Approaching drawdown limits: daily _% of _%, total _% of _%'',
                          ev_details = WarningLevelDetails critical\<rparr>
                   else Inr ev_ok))"

definition trade_size_limit_evaluate :: evaluator where
  "trade_size_limit_evaluate mon cal now request prof =
     (if \<not> truthy_num (tradeSizeLimit prof) \<or> \<not> truthy_num (volume request) then Inr ev_ok
      else case (volume request, tradeSizeLimit prof) of
             (Some v, Some l) \<Rightarrow>
               (if l < v
                then Inr \<lparr>ev_valid = False, ev_rule = Some ''trade_size_limit'',
                       ev_severity = Some ''error'',
                       ev_message = Some ''Trade size exceeds limit of _ lots (requested: _)'',
                       ev_details = TradeSizeDetails v l\<rparr>
                else Inr ev_ok)
           | _ \<Rightarrow> Inr ev_ok)"

definition news_trading_evaluate :: evaluator where
  "news_trading_evaluate mon cal now request prof =
     (if allowNewsTrading prof then Inr ev_ok
      else case (cal, symbol request) of
             (Some c, Some s) \<Rightarrow>
               (if s \<noteq> []
                then (case c s of
                        Inl e \<Rightarrow> Inl e
                      | Inr isHighImpactActive \<Rightarrow>
                          (if isHighImpactActive
                           then Inr \<lparr>ev_valid = False, ev_rule = Some ''news_trading'',
                                  ev_severity = Some ''error'',
                                  ev_message = Some (''Trading during high-impact news events is not allowed for '' @ s),
                                  ev_details = SymbolDetails s\<rparr>
                           else Inr ev_ok))
                else Inr ev_ok)
           | _ \<Rightarrow> Inr ev_ok)"

definition trading_days_evaluate :: evaluator where
  "trading_days_evaluate mon cal now request prof = Inr ev_ok"

text \<open>\<open>_initializeRuleEvaluators\<close>: the evaluators, in the order of their registration,
  which is the order in which the \<open>Map\<close> is iterated.\<close>

definition initializeRuleEvaluators :: "(string \<times> evaluator) list" where
  "initializeRuleEvaluators =
     [(''drawdown_limit'', drawdown_limit_evaluate),
      (''trade_size_limit'', trade_size_limit_evaluate),
      (''news_trading'', news_trading_evaluate),
      (''trading_days'', trading_days_evaluate)]"

text \<open>The engine. Its trade counters, trading-day history and warnings are not read by
  any operation modelled here and are left out; \<open>re_emitted\<close> is what its event emitter
  has emitted.\<close>

record rules_engine =
  drawdownMonitor :: drawdown_monitor
  tradingCalendar :: "calendar option"
  ruleEvaluators :: "(string \<times> evaluator) list"
  re_activeProfile :: "profile option"
  re_initialBalance :: real
  re_currentBalance :: real
  re_currentEquity :: real
  re_emitted :: "(string \<times> drawdown_status) list"

definition new_FXIFYRulesEngine :: "js_date \<Rightarrow> rules_engine" where
  "new_FXIFYRulesEngine now =
     \<lparr>drawdownMonitor = new_DrawdownMonitor now, tradingCalendar = None,
      ruleEvaluators = initializeRuleEvaluators, re_activeProfile = None,
      re_initialBalance = 0, re_currentBalance = 0, re_currentEquity = 0, re_emitted = []\<rparr>"

definition initializeForProfile :: "rules_engine \<Rightarrow> profile option \<Rightarrow> rules_engine" where
  "initializeForProfile eng prof = eng\<lparr>re_activeProfile := prof\<rparr>"

text \<open>\<open>initializeDrawdownMonitor(initialBalance, maxDailyDrawdown = null, maxTotalDrawdown = null)\<close>\<close>

definition re_initializeDrawdownMonitor :: "rules_engine \<Rightarrow> js_date \<Rightarrow> real \<Rightarrow> real option \<Rightarrow> real option \<Rightarrow> exn + rules_engine" where
  "re_initializeDrawdownMonitor eng now initialBalance' maxDaily maxTotal =
     (case re_activeProfile eng of
        None \<Rightarrow> Inl (Error ''No active FXIFY profile set'')
      | Some prof \<Rightarrow>
          (let dailyLimit = (case maxDaily of Some d \<Rightarrow> d | None \<Rightarrow> p_maxDailyDrawdown prof);
               totalLimit = (case maxTotal of Some t \<Rightarrow> t | None \<Rightarrow> p_maxTotalDrawdown prof)
           in Inr (eng\<lparr>re_initialBalance := initialBalance', re_currentBalance := initialBalance',
                        re_currentEquity := initialBalance',
                        drawdownMonitor :=
                          initialize (drawdownMonitor eng) now initialBalance' dailyLimit totalLimit\<rparr>)))"

definition checkDrawdownStatus :: "rules_engine \<Rightarrow> js_date \<Rightarrow> rules_engine" where
  "checkDrawdownStatus eng now =
     (let drawdownStatus = getStatus (drawdownMonitor eng) now;
          eng1 = (if st_warningLevel drawdownStatus = critical \<or> st_warningLevel drawdownStatus = warning
                  then eng\<lparr>re_emitted := re_emitted eng @ [(''drawdown_warning'', drawdownStatus)]\<rparr>
                  else eng)
      in if st_dailyLimitExceeded drawdownStatus \<or> st_totalLimitExceeded drawdownStatus
         then eng1\<lparr>re_emitted := re_emitted eng1 @ [(''drawdown_exceeded'', drawdownStatus)]\<rparr>
         else eng1)"

definition re_updateBalance :: "rules_engine \<Rightarrow> js_date \<Rightarrow> real \<Rightarrow> real \<Rightarrow> rules_engine" where
  "re_updateBalance eng now balance equity =
     checkDrawdownStatus
       (eng\<lparr>re_currentBalance := balance, re_currentEquity := equity,
            drawdownMonitor := updateBalance (drawdownMonitor eng) now balance (Some equity)\<rparr>)
       now"

text \<open>The loop of \<open>evaluateTradeRequest\<close> over the registered evaluators, with the two
  arrays it fills; an evaluator that throws ends it.\<close>

fun evaluate_rules :: "(string \<times> evaluator) list \<Rightarrow> drawdown_monitor \<Rightarrow> calendar option \<Rightarrow> js_date
    \<Rightarrow> trade_request \<Rightarrow> profile \<Rightarrow> violation list \<Rightarrow> violation list
    \<Rightarrow> exn + (violation list \<times> violation list)" where
  "evaluate_rules [] mon cal now request prof ruleViolations warnings =
     Inr (ruleViolations, warnings)"
| "evaluate_rules ((ruleName, ev) # rest) mon cal now request prof ruleViolations warnings =
     (case ev mon cal now request prof of
        Inl e \<Rightarrow> Inl e
      | Inr result \<Rightarrow>
          (if \<not> ev_valid result
           then evaluate_rules rest mon cal now request prof
                  (ruleViolations @
                     [\<lparr>rule = ruleName, severity = str_or (ev_severity result) ''error'',
                       message = ev_message result, details = ev_details result\<rparr>])
                  warnings
           else if ev_severity result = Some ''warning''
           then evaluate_rules rest mon cal now request prof ruleViolations
                  (warnings @
                     [\<lparr>rule = ruleName, severity = ''warning'',
                       message = ev_message result, details = ev_details result\<rparr>])
           else evaluate_rules rest mon cal now request prof ruleViolations warnings))"

definition evaluateTradeRequest_try :: "rules_engine \<Rightarrow> js_date \<Rightarrow> trade_request \<Rightarrow> profile option \<Rightarrow> exn + validation_result" where
  "evaluateTradeRequest_try eng now request prof =
     (case (case prof of Some p \<Rightarrow> Some p | None \<Rightarrow> re_activeProfile eng) of
        None \<Rightarrow> Inr \<lparr>valid = True, rules = Some []\<rparr>
      | Some activeProfile' \<Rightarrow>
          (case evaluate_rules (ruleEvaluators eng) (drawdownMonitor eng) (tradingCalendar eng)
                  now request activeProfile' [] [] of
             Inl e \<Rightarrow> Inl e
           | Inr (ruleViolations, warnings) \<Rightarrow>
               Inr \<lparr>valid = (length ruleViolations = 0),
                     rules = Some (ruleViolations @ warnings)\<rparr>))"

definition evaluateTradeRequest :: "rules_engine \<Rightarrow> js_date \<Rightarrow> trade_request \<Rightarrow> profile option \<Rightarrow> validation_result" where
  "evaluateTradeRequest eng now request prof =
     (case evaluateTradeRequest_try eng now request prof of
        Inl e \<Rightarrow> \<lparr>valid = False, rules = Some
                   [\<lparr>rule = ''system_error'', severity = ''error'',
                     message = Some (''Error evaluating trade rules: '' @ exn_message e),
                     details = NoDetails\<rparr>]\<rparr>
      | Inr r \<Rightarrow> r)"

section \<open>FXIFYModeManager (electron/fxify/fxify-mode-manager.js)\<close>

text \<open>The manager: the mode flag, the active profile and the engine. The stored
  profiles and the status listeners are outside the operations modelled here;
  \<open>mgr_emitted\<close> is what its event emitter has emitted.\<close>

record fxify_mode_manager =
  isActive :: bool
  activeProfile :: "profile option"
  rulesEngine :: rules_engine
  mgr_emitted :: "(string \<times> drawdown_status) list"

definition new_FXIFYModeManager :: "js_date \<Rightarrow> fxify_mode_manager" where
  "new_FXIFYModeManager now =
     \<lparr>isActive = False, activeProfile = None, rulesEngine = new_FXIFYRulesEngine now,
      mgr_emitted = []\<rparr>"

definition validateTradeAgainstRules :: "fxify_mode_manager \<Rightarrow> js_date \<Rightarrow> trade_request \<Rightarrow> validation_result" where
  "validateTradeAgainstRules mgr now tradeRequest =
     (if \<not> isActive mgr \<or> activeProfile mgr = None then \<lparr>valid = True, rules = Some []\<rparr>
      else evaluateTradeRequest (rulesEngine mgr) now tradeRequest (activeProfile mgr))"

definition mgr_initializeDrawdownMonitor :: "fxify_mode_manager \<Rightarrow> js_date \<Rightarrow> real \<Rightarrow> exn + fxify_mode_manager" where
  "mgr_initializeDrawdownMonitor mgr now initialBalance' =
     (case activeProfile mgr of
        Some prof \<Rightarrow>
          (if isActive mgr
           then (case re_initializeDrawdownMonitor (rulesEngine mgr) now initialBalance'
                         (Some (p_maxDailyDrawdown prof)) (Some (p_maxTotalDrawdown prof)) of
                   Inl e \<Rightarrow> Inl e
                 | Inr eng \<Rightarrow> Inr (mgr\<lparr>rulesEngine := eng\<rparr>))
           else Inr mgr)
      | None \<Rightarrow> Inr mgr)"

definition checkForDrawdownViolations :: "fxify_mode_manager \<Rightarrow> js_date \<Rightarrow> fxify_mode_manager" where
  "checkForDrawdownViolations mgr now =
     (if \<not> isActive mgr then mgr
      else let drawdownStatus = getStatus (drawdownMonitor (rulesEngine mgr)) now
           in if st_dailyLimitExceeded drawdownStatus
              then mgr\<lparr>mgr_emitted := mgr_emitted mgr @ [(''daily_drawdown_exceeded'', drawdownStatus)]\<rparr>
              else if st_totalLimitExceeded drawdownStatus
              then mgr\<lparr>mgr_emitted := mgr_emitted mgr @ [(''total_drawdown_exceeded'', drawdownStatus)]\<rparr>
              else if st_warningLevel drawdownStatus = critical
              then mgr\<lparr>mgr_emitted := mgr_emitted mgr @ [(''drawdown_critical'', drawdownStatus)]\<rparr>
              else if st_warningLevel drawdownStatus = warning
              then mgr\<lparr>mgr_emitted := mgr_emitted mgr @ [(''drawdown_warning'', drawdownStatus)]\<rparr>
              else mgr)"

definition mgr_updateBalance :: "fxify_mode_manager \<Rightarrow> js_date \<Rightarrow> real \<Rightarrow> real \<Rightarrow> fxify_mode_manager" where
  "mgr_updateBalance mgr now balance equity =
     (if isActive mgr
      then checkForDrawdownViolations
             (mgr\<lparr>rulesEngine := re_updateBalance (rulesEngine mgr) now balance equity\<rparr>) now
      else mgr)"

text \<open>The mode manager as the validator of the risk-gated adapter sees it: the object
  passed to \<open>new PreExecutionValidator(this.fxifyModeManager)\<close>. None of its own methods
  throws.\<close>

definition validator_view :: "fxify_mode_manager \<Rightarrow> js_date \<Rightarrow> mode_manager_obj" where
  "validator_view mgr now =
     \<lparr>mo_isFXIFYModeActive = isActive mgr,
      mo_getActiveProfile = Inr (activeProfile mgr),
      mo_getDrawdownStatus = Inr (getStatus (drawdownMonitor (rulesEngine mgr)) now),
      mo_currentBalance = Inr (re_currentBalance (rulesEngine mgr)),
      mo_tradingCalendar = tradingCalendar (rulesEngine mgr),
      mo_validateTradeAgainstRules = (\<lambda>request. Inr (validateTradeAgainstRules mgr now request))\<rparr>"

section \<open>MT5BrokerAdapter (electron/brokers/mt5.js)\<close>

text \<open>
  The bridge process is outside the core. What it answers to a command is a parameter of
  the model, typed by command: \<open>Inr\<close> the \<open>data\<close> of the response, \<open>Inl\<close> the error of a
  response with an \<open>error\<close> field or of a request that timed out.
\<close>

record account_info =
  ai_balance :: real
  ai_equity :: real

record position =
  pos_id :: nat
  pos_symbol :: string
  pos_volume :: real

record place_params =
  pp_type :: string
  pp_symbol :: "string option"
  pp_volume :: "real option"
  pp_direction :: string
  pp_stopLoss :: "real option"
  pp_takeProfit :: "real option"
  pp_comment :: string

record order_response =
  or_success :: bool
  or_orderId :: nat

record close_response =
  cr_success :: bool

datatype command =
    GET_ACCOUNT_INFO
  | GET_POSITIONS
  | PLACE_ORDER place_params
  | CLOSE_POSITION nat "real option"

record bridge =
  br_getAccountInfo :: "exn + account_info"
  br_getPositions :: "exn + position list"
  br_placeOrder :: "place_params \<Rightarrow> exn + order_response"
  br_closePosition :: "nat \<Rightarrow> real option \<Rightarrow> exn + close_response"

datatype settlement = Resolved | Rejected exn

datatype event = Disconnected | RuleViolation "violation list"

text \<open>
  The adapter. \<open>callbacks\<close> is the map of the pending requests, as the list of its keys in
  insertion order: the value under a request id is the pair of functions that settles the
  promise of that request, and \<open>settled\<close> records how each promise was settled. \<open>written\<close>
  is what was written to the socket, \<open>emitted\<close> what the event emitter has emitted,
  \<open>reconnectTimers\<close> the delays of the reconnections scheduled with \<open>setTimeout\<close>.
\<close>

record mt5_adapter =
  connected :: bool
  callbacks :: "nat list"
  nextRequestId :: nat
  written :: "(nat \<times> command) list"
  settled :: "(nat \<times> settlement) list"
  emitted :: "event list"
  reconnectAttempts :: nat
  maxReconnectAttempts :: nat
  reconnectDelay :: nat
  reconnectTimers :: "nat list"
  accountInfo :: "account_info option"
  positions :: "position list"

definition new_MT5BrokerAdapter :: mt5_adapter where
  "new_MT5BrokerAdapter =
     \<lparr>connected = False, callbacks = [], nextRequestId = 1, written = [], settled = [],
      emitted = [], reconnectAttempts = 0, maxReconnectAttempts = 5, reconnectDelay = 2000,
      reconnectTimers = [], accountInfo = None, positions = []\<rparr>"

text \<open>The synchronous part of \<open>_sendCommand\<close>: take the next request id, store the
  callbacks under it, write the frame.\<close>

definition send_request :: "'a mt5_adapter_scheme \<Rightarrow> command \<Rightarrow> nat \<times> 'a mt5_adapter_scheme" where
  "send_request a cmd =
     (let requestId = nextRequestId a
      in (requestId,
          a\<lparr>nextRequestId := requestId + 1,
            callbacks := (if requestId \<in> set (callbacks a) then callbacks a
                          else callbacks a @ [requestId]),
            written := written a @ [(requestId, cmd)]\<rparr>))"

text \<open>A response frame for a pending request id, or its timeout: the entry is deleted and
  the promise settled. A frame for an id that is not pending settles nothing.\<close>

definition settle :: "'a mt5_adapter_scheme \<Rightarrow> nat \<Rightarrow> settlement \<Rightarrow> 'a mt5_adapter_scheme" where
  "settle a requestId s =
     (if requestId \<in> set (callbacks a)
      then a\<lparr>callbacks := removeAll requestId (callbacks a),
             settled := settled a @ [(requestId, s)]\<rparr>
      else a)"

text \<open>An awaited \<open>_sendCommand\<close>: the request, then its settlement by what the bridge
  answers.\<close>

definition sendCommand :: "'a mt5_adapter_scheme \<Rightarrow> command \<Rightarrow> exn + 'r \<Rightarrow> (exn + 'r) \<times> 'a mt5_adapter_scheme" where
  "sendCommand a cmd answer =
     (if \<not> connected a then (Inl (Error ''Not connected to MT5''), a)
      else let (requestId, a1) = send_request a cmd
           in (answer,
               settle a1 requestId (case answer of Inl e \<Rightarrow> Rejected e | Inr r \<Rightarrow> Resolved)))"

text \<open>The handler of the socket's \<open>close\<close> event.\<close>

definition on_close :: "'a mt5_adapter_scheme \<Rightarrow> 'a mt5_adapter_scheme" where
  "on_close a =
     (let wasConnected = connected a;
          a1 = a\<lparr>connected := False,
                 settled := settled a @
                   map (\<lambda>requestId. (requestId, Rejected (Error ''Connection closed''))) (callbacks a),
                 callbacks := []\<rparr>
      in if wasConnected
         then (let a2 = a1\<lparr>emitted := emitted a1 @ [Disconnected]\<rparr>
               in if reconnectAttempts a2 < maxReconnectAttempts a2
                  then a2\<lparr>reconnectAttempts := reconnectAttempts a2 + 1,
                          reconnectTimers := reconnectTimers a2 @
                            [reconnectDelay a2 * (reconnectAttempts a2 + 1)]\<rparr>
                  else a2)
         else a1)"

definition mt5_getAccountInfo :: "bridge \<Rightarrow> 'a mt5_adapter_scheme \<Rightarrow> (exn + account_info) \<times> 'a mt5_adapter_scheme" where
  "mt5_getAccountInfo br a =
     (if \<not> connected a then (Inl (Error ''Not connected to MT5''), a)
      else case sendCommand a GET_ACCOUNT_INFO (br_getAccountInfo br) of
             (Inl e, a1) \<Rightarrow> (Inl e, a1)
           | (Inr info, a1) \<Rightarrow> (Inr info, a1\<lparr>accountInfo := Some info\<rparr>))"

definition mt5_getPositions :: "bridge \<Rightarrow> 'a mt5_adapter_scheme \<Rightarrow> (exn + position list) \<times> 'a mt5_adapter_scheme" where
  "mt5_getPositions br a =
     (if \<not> connected a then (Inl (Error ''Not connected to MT5''), a)
      else case sendCommand a GET_POSITIONS (br_getPositions br) of
             (Inl e, a1) \<Rightarrow> (Inl e, a1)
           | (Inr ps, a1) \<Rightarrow> (Inr ps, a1\<lparr>positions := ps\<rparr>))"

text \<open>\<open>toUpperCase\<close> on the letters of ASCII.\<close>

definition toUpperCase :: "string \<Rightarrow> string" where
  "toUpperCase s =
     map (\<lambda>c. case map_of (zip ''abcdefghijklmnopqrstuvwxyz'' ''ABCDEFGHIJKLMNOPQRSTUVWXYZ'') c of
                 None \<Rightarrow> c | Some u \<Rightarrow> u) s"

text \<open>The parameters \<open>placeMarketOrder\<close> sends; \<open>orderParams.direction.toUpperCase()\<close>
  throws where the order has no direction.\<close>

definition market_order_params :: "'a order_scheme \<Rightarrow> exn + place_params" where
  "market_order_params orderParams =
     (case direction orderParams of
        None \<Rightarrow> Inl (TypeError ''Cannot read properties of undefined (reading 'toUpperCase')'')
      | Some d \<Rightarrow>
          Inr \<lparr>pp_type = ''MARKET'', pp_symbol = symbol orderParams,
               pp_volume = volume orderParams, pp_direction = toUpperCase d,
               pp_stopLoss = stopLoss orderParams, pp_takeProfit = takeProfit orderParams,
               pp_comment = str_or (comment orderParams) ''SAITRAPP''\<rparr>)"

definition mt5_placeMarketOrder :: "bridge \<Rightarrow> 'a mt5_adapter_scheme \<Rightarrow> order \<Rightarrow> (exn + order_response) \<times> 'a mt5_adapter_scheme" where
  "mt5_placeMarketOrder br a orderParams =
     (if \<not> connected a then (Inl (Error ''Not connected to MT5''), a)
      else case market_order_params orderParams of
             Inl e \<Rightarrow> (Inl e, a)
           | Inr params \<Rightarrow> sendCommand a (PLACE_ORDER params) (br_placeOrder br params))"

text \<open>\<open>closePosition(positionId, volume = null)\<close>\<close>

definition mt5_closePosition :: "bridge \<Rightarrow> 'a mt5_adapter_scheme \<Rightarrow> nat \<Rightarrow> real option \<Rightarrow> (exn + close_response) \<times> 'a mt5_adapter_scheme" where
  "mt5_closePosition br a positionId vol =
     (if \<not> connected a then (Inl (Error ''Not connected to MT5''), a)
      else sendCommand a (CLOSE_POSITION positionId vol) (br_closePosition br positionId vol))"

section \<open>MT5FXIFYAdapter (electron/brokers/fxify-mt5.js)\<close>

text \<open>The risk-gated adapter extends the broker adapter; its validator is built from its
  mode manager. Its event emitter is the field \<open>eventEmitter\<close> of the broker adapter,
  which its constructor assigns again. The callbacks that subscribers register on the
  emitter are outside the model.\<close>

record fxify_adapter = mt5_adapter +
  fxifyModeManager :: fxify_mode_manager

definition new_MT5FXIFYAdapter :: "js_date \<Rightarrow> fxify_adapter" where
  "new_MT5FXIFYAdapter now =
     \<lparr>connected = False, callbacks = [], nextRequestId = 1, written = [], settled = [],
      emitted = [], reconnectAttempts = 0, maxReconnectAttempts = 5, reconnectDelay = 2000,
      reconnectTimers = [], accountInfo = None, positions = [],
      fxifyModeManager = new_FXIFYModeManager now\<rparr>"

definition isFXIFYModeActive :: "fxify_adapter \<Rightarrow> bool" where
  "isFXIFYModeActive a = isActive (fxifyModeManager a)"

text \<open>\<open>validateAgainstFXIFYRules\<close>. Its \<open>catch\<close> is not reached: \<open>validateOrder\<close> catches
  what its own steps throw.\<close>

definition validateAgainstFXIFYRules :: "fxify_adapter \<Rightarrow> js_date \<Rightarrow> order \<Rightarrow> validation_result" where
  "validateAgainstFXIFYRules a now ord =
     (if \<not> isFXIFYModeActive a then \<lparr>valid = True, rules = Some []\<rparr>
      else validateOrder (validator_view (fxifyModeManager a) now) now ord)"

definition applyFXIFYConstraints :: "fxify_adapter \<Rightarrow> order \<Rightarrow> order" where
  "applyFXIFYConstraints a ord =
     (if \<not> isFXIFYModeActive a then ord
      else case activeProfile (fxifyModeManager a) of
             None \<Rightarrow> ord
           | Some activeProfile' \<Rightarrow>
               (let adjustedOrder =
                      (case (tradeSizeLimit activeProfile', volume ord) of
                         (Some l, Some v) \<Rightarrow>
                           (if l \<noteq> 0 \<and> l < v then ord\<lparr>volume := Some l\<rparr> else ord)
                       | _ \<Rightarrow> ord)
                in adjustedOrder\<lparr>comment :=
                     Some (''FXIFY: '' @ str_or (comment adjustedOrder) ''SAITRAPP'')\<rparr>))"

definition handleRuleViolation :: "fxify_adapter \<Rightarrow> violation list \<Rightarrow> fxify_adapter" where
  "handleRuleViolation a violations = a\<lparr>emitted := emitted a @ [RuleViolation violations]\<rparr>"

text \<open>The block that follows a successful order or close: fetch the account, update the
  monitor; what it throws is logged and dropped.\<close>

definition refreshDrawdownMonitor :: "bridge \<Rightarrow> js_date \<Rightarrow> fxify_adapter \<Rightarrow> fxify_adapter" where
  "refreshDrawdownMonitor br now a =
     (case mt5_getAccountInfo br a of
        (Inl e, a1) \<Rightarrow> a1
      | (Inr info, a1) \<Rightarrow>
          a1\<lparr>fxifyModeManager :=
               mgr_updateBalance (fxifyModeManager a1) now (ai_balance info) (ai_equity info)\<rparr>)"

text \<open>What \<open>placeMarketOrder\<close> returns: the \<open>data\<close> of the broker's response, or
  \<open>{success: false, message, violations}\<close>.\<close>

datatype place_result = Placed order_response | Refused string "violation list"

text \<open>
  \<open>placeMarketOrder\<close>. On a failed validation \<open>handleRuleViolation(validationResult.rules)\<close>
  iterates the rules and emits the event, then \<open>validationResult.rules[0].message\<close> is read:
  a result with no \<open>rules\<close> throws in the first, one with an empty list in the second, and
  the \<open>catch\<close> throws again what was thrown.
\<close>

definition placeMarketOrder :: "bridge \<Rightarrow> js_date \<Rightarrow> fxify_adapter \<Rightarrow> order \<Rightarrow> (exn + place_result) \<times> fxify_adapter" where
  "placeMarketOrder br now a orderParams =
     (if \<not> isFXIFYModeActive a
      then (case mt5_placeMarketOrder br a orderParams of
              (Inl e, a1) \<Rightarrow> (Inl e, a1)
            | (Inr r, a1) \<Rightarrow> (Inr (Placed r), a1))
      else let validationResult = validateAgainstFXIFYRules a now orderParams
      in if \<not> valid validationResult
         then (case rules validationResult of
                 None \<Rightarrow> (Inl (TypeError ''Cannot read properties of undefined (reading 'forEach')''), a)
               | Some violations \<Rightarrow>
                   (let a1 = handleRuleViolation a violations
                    in case violations of
                         [] \<Rightarrow> (Inl (TypeError ''Cannot read properties of undefined (reading 'message')''), a1)
                       | v # vs \<Rightarrow>
                           (Inr (Refused (''FXIFY rule violation: '' @
                                   (case message v of None \<Rightarrow> ''undefined'' | Some m \<Rightarrow> m))
                                 violations), a1)))
         else let adjustedOrder = applyFXIFYConstraints a orderParams
         in case mt5_placeMarketOrder br a adjustedOrder of
              (Inl e, a1) \<Rightarrow> (Inl e, a1)
            | (Inr orderResult, a1) \<Rightarrow>
                (if or_success orderResult
                 then (Inr (Placed orderResult), refreshDrawdownMonitor br now a1)
                 else (Inr (Placed orderResult), a1)))"

text \<open>\<open>closeAllPositions\<close>: one entry of \<open>details\<close> per position.\<close>

record close_detail =
  cd_positionId :: nat
  cd_success :: bool
  cd_error :: "string option"

record close_all_aggregate =
  ca_success :: bool
  ca_closed :: nat
  ca_total :: nat
  ca_reason :: string
  ca_details :: "close_detail list"

text \<open>The aggregate, or the \<open>{success: false, reason, error}\<close> of the outer \<open>catch\<close>.\<close>

datatype close_all_result = Aggregate close_all_aggregate | CloseError string string

text \<open>
  \<open>positions.map(async (position) => ...)\<close>: every callback runs up to its \<open>await\<close> as it is
  called, so the close commands are sent in the order of the positions; each has its own
  \<open>try\<close>, and \<open>Promise.all\<close> gives the results in the same order.
\<close>

fun close_each :: "bridge \<Rightarrow> fxify_adapter \<Rightarrow> position list \<Rightarrow> close_detail list \<times> fxify_adapter" where
  "close_each br a [] = ([], a)"
| "close_each br a (p # ps) =
     (let (r, a1) = mt5_closePosition br a (pos_id p) None;
          d = (case r of
                 Inr result \<Rightarrow> \<lparr>cd_positionId = pos_id p, cd_success = cr_success result,
                                 cd_error = None\<rparr>
               | Inl e \<Rightarrow> \<lparr>cd_positionId = pos_id p, cd_success = False,
                            cd_error = Some (exn_message e)\<rparr>);
          (ds, a2) = close_each br a1 ps
      in (d # ds, a2))"

definition closeAllPositions :: "bridge \<Rightarrow> js_date \<Rightarrow> fxify_adapter \<Rightarrow> string \<Rightarrow> close_all_result \<times> fxify_adapter" where
  "closeAllPositions br now a reason =
     (case mt5_getPositions br a of
        (Inl e, a1) \<Rightarrow>
          (CloseError (''Error closing positions: '' @ exn_message e) (exn_message e), a1)
      | (Inr ps, a1) \<Rightarrow>
          (let (results, a2) = close_each br a1 ps;
               successful = length (filter cd_success results);
               a3 = (if 0 < successful \<and> isFXIFYModeActive a2
                     then refreshDrawdownMonitor br now a2 else a2)
           in (Aggregate \<lparr>ca_success = (successful = length ps), ca_closed = successful,
                           ca_total = length ps, ca_reason = reason, ca_details = results\<rparr>,
               a3)))"

section \<open>Concrete states and inputs\<close>

text \<open>Two consecutive weekdays and a Saturday.\<close>

definition day1 :: js_date where
  "day1 = \<lparr>iso_date = ''2024-03-04'', utc_day = 1, utc_hours = 10, utc_minutes = 0\<rparr>"

definition day2 :: js_date where
  "day2 = \<lparr>iso_date = ''2024-03-05'', utc_day = 2, utc_hours = 0, utc_minutes = 5\<rparr>"

definition saturday :: js_date where
  "saturday = \<lparr>iso_date = ''2024-03-09'', utc_day = 6, utc_hours = 12, utc_minutes = 0\<rparr>"

text \<open>A connected broker adapter with two requests pending.\<close>

definition pending_adapter :: mt5_adapter where
  "pending_adapter =
     snd (send_request (snd (send_request (new_MT5BrokerAdapter\<lparr>connected := True\<rparr>)
                                GET_ACCOUNT_INFO)) GET_POSITIONS)"

text \<open>A bridge with three open positions that fails to close the second.\<close>

definition scenario4_bridge :: bridge where
  "scenario4_bridge =
     \<lparr>br_getAccountInfo = Inr \<lparr>ai_balance = 10000, ai_equity = 10000\<rparr>,
      br_getPositions = Inr [\<lparr>pos_id = 11, pos_symbol = ''EURUSD'', pos_volume = 1\<rparr>,
                             \<lparr>pos_id = 12, pos_symbol = ''GBPUSD'', pos_volume = 0.5\<rparr>,
                             \<lparr>pos_id = 13, pos_symbol = ''USDJPY'', pos_volume = 2\<rparr>],
      br_placeOrder = (\<lambda>params. Inr \<lparr>or_success = True, or_orderId = 1\<rparr>),
      br_closePosition = (\<lambda>positionId vol.
         if positionId = 12 then Inl (Error ''Trade server busy'')
         else Inr \<lparr>cr_success = True\<rparr>)\<rparr>"

text \<open>
  An order with a stop loss 50 pips away: potential loss 0.5 * 50 * 10 = 250.
\<close>

definition buy_order :: order where
  "buy_order = \<lparr>symbol = Some ''EURUSD'', direction = Some ''buy'', volume = Some 0.5,
                price = Some 1.1, stopLoss = Some 1.095, takeProfit = None,
                comment = None, pipValue = None, pipSize = None\<rparr>"

text \<open>
  The profile of \<open>createDefaultProfile\<close>.
\<close>

definition default_profile :: profile where
  "default_profile =
     \<lparr>p_name = ''Default FXIFY Profile'', accountType = ''Evaluation'', profitTarget = 0.10,
      p_maxDailyDrawdown = 0.03, p_maxTotalDrawdown = 0.06, minTradingDays = 5,
      tradeSizeLimit = None, allowNewsTrading = False\<rparr>"

text \<open>
  Mode managers, as a validator may be given them, of which one method throws.
\<close>

definition failing_status_manager :: mode_manager_obj where
  "failing_status_manager =
     \<lparr>mo_isFXIFYModeActive = True,
      mo_getActiveProfile = Inr (Some default_profile),
      mo_getDrawdownStatus = Inl (TypeError ''rulesEngine.getDrawdownStatus is not a function''),
      mo_currentBalance = Inr 10000,
      mo_tradingCalendar = None,
      mo_validateTradeAgainstRules = (\<lambda>request. Inr \<lparr>valid = True, rules = Some []\<rparr>)\<rparr>"

definition failing_profile_manager :: mode_manager_obj where
  "failing_profile_manager =
     failing_status_manager\<lparr>mo_getActiveProfile := Inl (Error ''profile store unavailable'')\<rparr>"

text \<open>
  An evaluator that throws.
\<close>

definition failing_evaluator :: evaluator where
  "failing_evaluator mon cal now request prof = Inl (Error ''evaluator failed'')"

text \<open>
  The mode manager after \<open>activateFXIFYMode\<close> with profile \<open>p\<close> and
  \<open>initializeDrawdownMonitor(bal)\<close>, and a connected risk-gated adapter holding it.
\<close>

definition active_manager :: "profile \<Rightarrow> js_date \<Rightarrow> real \<Rightarrow> fxify_mode_manager" where
  "active_manager p now bal =
     \<lparr>isActive = True, activeProfile = Some p,
      rulesEngine = (new_FXIFYRulesEngine now)
        \<lparr>re_activeProfile := Some p, re_initialBalance := bal, re_currentBalance := bal,
         re_currentEquity := bal,
         drawdownMonitor := initialize (new_DrawdownMonitor now) now bal
                              (p_maxDailyDrawdown p) (p_maxTotalDrawdown p)\<rparr>,
      mgr_emitted = []\<rparr>"

definition risk_adapter :: "profile \<Rightarrow> js_date \<Rightarrow> real \<Rightarrow> fxify_adapter" where
  "risk_adapter p now bal =
     (new_MT5FXIFYAdapter now)\<lparr>connected := True, fxifyModeManager := active_manager p now bal\<rparr>"

text \<open>
  The active manager with a fifth evaluator registered, which throws.
\<close>

definition failing_manager :: fxify_mode_manager where
  "failing_manager =
     (active_manager default_profile day1 10000)
       \<lparr>rulesEngine := (rulesEngine (active_manager default_profile day1 10000))
          \<lparr>ruleEvaluators := initializeRuleEvaluators @ [(''custom_rule'', failing_evaluator)]\<rparr>\<rparr>"

text \<open>
  A rules engine with a fifth evaluator registered, which throws.
\<close>

definition failing_engine :: rules_engine where
  "failing_engine =
     (new_FXIFYRulesEngine day1)
       \<lparr>ruleEvaluators := initializeRuleEvaluators @ [(''custom_rule'', failing_evaluator)]\<rparr>"



text \<open>
  The default profile with a trade size limit, and an order of volume 0.
\<close>

definition limited_profile :: "real \<Rightarrow> profile" where
  "limited_profile l = default_profile\<lparr>tradeSizeLimit := Some l\<rparr>"

definition zero_volume_order :: order where
  "zero_volume_order = buy_order\<lparr>volume := Some 0\<rparr>"

section \<open>DrawdownMonitor: what an update stores\<close>

lemma updateBalance_startOfDayBalance:
  "startOfDayBalance (updateBalance m now b eq) =
     (if iso_date now \<noteq> iso_date (lastUpdate m) then b else startOfDayBalance m)"
  by (simp add: updateBalance_def registerDayStart_def calculateDrawdowns_def
        updateDrawdownHistory_def Let_def)

lemma updateBalance_peakBalance:
  "peakBalance (updateBalance m now b eq) = (if peakBalance m < b then b else peakBalance m)"
  by (simp add: updateBalance_def registerDayStart_def calculateDrawdowns_def
        updateDrawdownHistory_def Let_def)

lemma updateBalance_maxDailyDrawdown:
  "maxDailyDrawdown (updateBalance m now b eq) = maxDailyDrawdown m"
  by (simp add: updateBalance_def registerDayStart_def calculateDrawdowns_def
        updateDrawdownHistory_def Let_def)

lemma calculateDrawdowns_daily:
  "getCurrentDailyDrawdown (calculateDrawdowns m now) now =
     (if 0 < startOfDayBalance m
      then max 0 ((startOfDayBalance m - currentEquity m) / startOfDayBalance m) else 0)"
  by (simp add: calculateDrawdowns_def getCurrentDailyDrawdown_def Let_def)

lemma calculateDrawdowns_total:
  "0 < peakBalance m \<Longrightarrow> totalDrawdown (calculateDrawdowns m now) =
      max 0 ((peakBalance m - currentEquity m) / peakBalance m)"
  by (simp add: calculateDrawdowns_def Let_def)

lemma calculateDrawdowns_frame:
  "startOfDayBalance (calculateDrawdowns m now) = startOfDayBalance m"
  "peakBalance (calculateDrawdowns m now) = peakBalance m"
  "currentEquity (calculateDrawdowns m now) = currentEquity m"
  by (simp_all add: calculateDrawdowns_def Let_def)

lemma updateDrawdownHistory_frame:
  "getCurrentDailyDrawdown (updateDrawdownHistory m now\<lparr>lastUpdate := t\<rparr>) d =
     getCurrentDailyDrawdown m d"
  "totalDrawdown (updateDrawdownHistory m now\<lparr>lastUpdate := t\<rparr>) = totalDrawdown m"
  "startOfDayBalance (updateDrawdownHistory m now\<lparr>lastUpdate := t\<rparr>) = startOfDayBalance m"
  "peakBalance (updateDrawdownHistory m now\<lparr>lastUpdate := t\<rparr>) = peakBalance m"
  by (simp_all add: updateDrawdownHistory_def getCurrentDailyDrawdown_def Let_def)

text \<open>The two drawdowns stored by an update, in terms of the fields it leaves.\<close>

lemma updateBalance_stored:
  "getCurrentDailyDrawdown (updateBalance m now b (Some e)) now =
     (if 0 < startOfDayBalance (updateBalance m now b (Some e))
      then max 0 ((startOfDayBalance (updateBalance m now b (Some e)) - e)
                  / startOfDayBalance (updateBalance m now b (Some e))) else 0)"
  "0 < peakBalance (updateBalance m now b (Some e)) \<Longrightarrow>
   totalDrawdown (updateBalance m now b (Some e)) =
     max 0 ((peakBalance (updateBalance m now b (Some e)) - e)
            / peakBalance (updateBalance m now b (Some e)))"
proof -
  define m3 where "m3 = (let m1 = m\<lparr>currentBalance := b, currentEquity := e\<rparr>;
          m2 = (if peakBalance m1 < b then m1\<lparr>peakBalance := b\<rparr> else m1)
      in (if iso_date now \<noteq> iso_date (lastUpdate m2) then registerDayStart m2 now else m2))"
  have ub: "updateBalance m now b (Some e) =
      updateDrawdownHistory (calculateDrawdowns m3 now) now\<lparr>lastUpdate := now\<rparr>"
    by (simp add: updateBalance_def m3_def Let_def)
  have eq: "currentEquity m3 = e"
    by (simp add: m3_def Let_def registerDayStart_def)
  show "getCurrentDailyDrawdown (updateBalance m now b (Some e)) now =
     (if 0 < startOfDayBalance (updateBalance m now b (Some e))
      then max 0 ((startOfDayBalance (updateBalance m now b (Some e)) - e)
                  / startOfDayBalance (updateBalance m now b (Some e))) else 0)"
    unfolding ub updateDrawdownHistory_frame calculateDrawdowns_daily calculateDrawdowns_frame eq ..
  show "totalDrawdown (updateBalance m now b (Some e)) =
     max 0 ((peakBalance (updateBalance m now b (Some e)) - e)
            / peakBalance (updateBalance m now b (Some e)))"
    if "0 < peakBalance (updateBalance m now b (Some e))"
    using that unfolding ub updateDrawdownHistory_frame calculateDrawdowns_frame
    by (simp only: calculateDrawdowns_total eq)
qed

lemma scenario1_daily:
  "getCurrentDailyDrawdown
        (updateBalance (initialize m0 d0 10000 0.03 0.06) d1 10000 (Some 9600)) d1 = 0.04"
  unfolding updateBalance_stored(1) updateBalance_startOfDayBalance
  by (simp add: initialize_def registerDayStart_def)

text \<open>
  C2, as the claim states it, fails: the monitor is initialised with balance 10000 on one
  day and updated with balance 9000 on the next; the balance before the update is 10000,
  and the start-of-day balance of the new day is 9000.
\<close>

theorem updateBalance_rollover_counterexample:
  "iso_date day2 \<noteq> iso_date (lastUpdate (initialize (new_DrawdownMonitor day1) day1 10000 0.03 0.06))
   \<and> currentBalance (initialize (new_DrawdownMonitor day1) day1 10000 0.03 0.06) = 10000
   \<and> startOfDayBalance
        (updateBalance (initialize (new_DrawdownMonitor day1) day1 10000 0.03 0.06)
           day2 9000 (Some 9500)) = 9000
   \<and> startOfDayBalance
        (updateBalance (initialize (new_DrawdownMonitor day1) day1 10000 0.03 0.06)
           day2 9000 (Some 9500))
       \<noteq> currentBalance (initialize (new_DrawdownMonitor day1) day1 10000 0.03 0.06)"
  by (simp add: updateBalance_startOfDayBalance initialize_def registerDayStart_def
        new_DrawdownMonitor_def day1_def day2_def)

text \<open>
  C2 (amended): \<open>updateBalance\<close> assigns the new balance to \<open>currentBalance\<close> before it
  compares the dates, so when the UTC date has advanced since the last update the new
  day's \<open>startOfDayBalance\<close> is the balance supplied with the call, whatever the equity.
\<close>

theorem updateBalance_rollover:
  "iso_date now \<noteq> iso_date (lastUpdate m) \<Longrightarrow>
     startOfDayBalance (updateBalance m now newBalance equity) = newBalance"
  by (simp add: updateBalance_startOfDayBalance)

theorem updateBalance_rollover_witness:
  "iso_date day2 \<noteq> iso_date (lastUpdate (new_DrawdownMonitor day1))
   \<and> startOfDayBalance (updateBalance (new_DrawdownMonitor day1) day2 9000 (Some 9500)) = 9000"
  using updateBalance_rollover [of day2 "new_DrawdownMonitor day1" 9000 "Some 9500"]
  by (simp add: new_DrawdownMonitor_def day1_def day2_def)

text \<open>
  C5: after \<open>updateBalance(balance, equity)\<close>, if the start-of-day balance and the peak
  balance it leaves are positive, the daily drawdown stored for the day of the call is
  \<open>max(0, (startOfDayBalance - equity) / startOfDayBalance)\<close> and the total drawdown is
  \<open>max(0, (peakBalance - equity) / peakBalance)\<close>: both from the equity. After
  \<open>initialize(10000, 0.03, 0.06)\<close> and \<open>updateBalance(10000, 9600)\<close> the daily drawdown is
  0.04 and \<open>isDailyLimitExceeded()\<close> is true.
\<close>

theorem updateBalance_drawdowns:
  "(0 < startOfDayBalance (updateBalance m now balance (Some equity)) \<longrightarrow>
    0 < peakBalance (updateBalance m now balance (Some equity)) \<longrightarrow>
      getCurrentDailyDrawdown (updateBalance m now balance (Some equity)) now =
        max 0 ((startOfDayBalance (updateBalance m now balance (Some equity)) - equity)
               / startOfDayBalance (updateBalance m now balance (Some equity)))
      \<and> totalDrawdown (updateBalance m now balance (Some equity)) =
        max 0 ((peakBalance (updateBalance m now balance (Some equity)) - equity)
               / peakBalance (updateBalance m now balance (Some equity))))
   \<and> getCurrentDailyDrawdown
        (updateBalance (initialize m0 d0 10000 0.03 0.06) d1 10000 (Some 9600)) d1 = 0.04
   \<and> isDailyLimitExceeded
        (updateBalance (initialize m0 d0 10000 0.03 0.06) d1 10000 (Some 9600)) d1"
proof (intro conjI impI)
  assume "0 < startOfDayBalance (updateBalance m now balance (Some equity))"
  then show "getCurrentDailyDrawdown (updateBalance m now balance (Some equity)) now =
        max 0 ((startOfDayBalance (updateBalance m now balance (Some equity)) - equity)
               / startOfDayBalance (updateBalance m now balance (Some equity)))"
    by (simp only: updateBalance_stored(1) if_True)
next
  assume "0 < peakBalance (updateBalance m now balance (Some equity))"
  then show "totalDrawdown (updateBalance m now balance (Some equity)) =
        max 0 ((peakBalance (updateBalance m now balance (Some equity)) - equity)
               / peakBalance (updateBalance m now balance (Some equity)))"
    by (rule updateBalance_stored(2))
next
  show "getCurrentDailyDrawdown
        (updateBalance (initialize m0 d0 10000 0.03 0.06) d1 10000 (Some 9600)) d1 = 0.04"
    by (rule scenario1_daily)
next
  have "maxDailyDrawdown (updateBalance (initialize m0 d0 10000 0.03 0.06) d1 10000 (Some 9600)) = 0.03"
    by (simp add: updateBalance_maxDailyDrawdown initialize_def registerDayStart_def)
  then show "isDailyLimitExceeded
        (updateBalance (initialize m0 d0 10000 0.03 0.06) d1 10000 (Some 9600)) d1"
    unfolding isDailyLimitExceeded_def scenario1_daily by simp
qed

theorem updateBalance_drawdowns_witness:
  "0 < startOfDayBalance (updateBalance (initialize (new_DrawdownMonitor day1) day1 10000 0.03 0.06) day1 10200 (Some 9900))
   \<and> 0 < peakBalance (updateBalance (initialize (new_DrawdownMonitor day1) day1 10000 0.03 0.06) day1 10200 (Some 9900))
   \<and> getCurrentDailyDrawdown (updateBalance (initialize (new_DrawdownMonitor day1) day1 10000 0.03 0.06) day1 10200 (Some 9900)) day1 = 0.01
   \<and> totalDrawdown (updateBalance (initialize (new_DrawdownMonitor day1) day1 10000 0.03 0.06) day1 10200 (Some 9900)) = 300 / 10200"
  using updateBalance_drawdowns [of "initialize (new_DrawdownMonitor day1) day1 10000 0.03 0.06" day1 10200 9900]
  by (simp add: updateBalance_startOfDayBalance updateBalance_peakBalance initialize_def
        registerDayStart_def new_DrawdownMonitor_def)

section \<open>DrawdownMonitor: limits and warning level\<close>




section \<open>Transport: the close of the socket\<close>

text \<open>
  C9: when the socket's \<open>close\<close> event fires, every request in the map of pending requests
  is rejected with the error "Connection closed" and the map is emptied.
\<close>

theorem on_close_rejects_pending:
  "callbacks (on_close a) = []
   \<and> (\<forall>requestId \<in> set (callbacks a).
         (requestId, Rejected (Error ''Connection closed'')) \<in> set (settled (on_close a)))
   \<and> \<not> connected (on_close a)"
  by (auto simp add: on_close_def Let_def)

theorem on_close_rejects_pending_witness:
  "callbacks pending_adapter = [1, 2]
   \<and> 2 \<in> set (callbacks pending_adapter)
   \<and> (2, Rejected (Error ''Connection closed'')) \<in> set (settled (on_close pending_adapter))
   \<and> callbacks (on_close pending_adapter) = []"
  using on_close_rejects_pending [of pending_adapter]
  by (simp add: pending_adapter_def send_request_def new_MT5BrokerAdapter_def Let_def
        numeral_2_eq_2)

section \<open>Risk-gated adapter: closing all positions\<close>

lemma sendCommand_connected:
  "connected (snd (sendCommand a cmd answer)) = connected a"
  by (simp add: sendCommand_def send_request_def settle_def Let_def split: prod.splits)

lemma sendCommand_fst:
  "connected a \<Longrightarrow> fst (sendCommand a cmd answer) = answer"
  by (simp add: sendCommand_def split: prod.splits)

lemma sendCommand_frame:
  "fxifyModeManager (snd (sendCommand a cmd answer)) = fxifyModeManager a"
  "emitted (snd (sendCommand a cmd answer)) = emitted a"
  by (simp_all add: sendCommand_def send_request_def settle_def Let_def split: prod.splits)


lemma mt5_closePosition_connected:
  "connected (snd (mt5_closePosition br a i v)) = connected a"
  by (simp add: mt5_closePosition_def sendCommand_connected)

lemma mt5_closePosition_manager:
  "fxifyModeManager (snd (mt5_closePosition br a i v)) = fxifyModeManager a"
  by (simp add: mt5_closePosition_def sendCommand_frame)

lemma mt5_closePosition_fst:
  "connected a \<Longrightarrow> fst (mt5_closePosition br a i v) = br_closePosition br i v"
  by (simp add: mt5_closePosition_def sendCommand_fst)

lemma close_each_details:
  "connected a \<Longrightarrow>
     fst (close_each br a ps) =
       map (\<lambda>p. case br_closePosition br (pos_id p) None of
                   Inr result \<Rightarrow> \<lparr>cd_positionId = pos_id p, cd_success = cr_success result, cd_error = None\<rparr>
                 | Inl e \<Rightarrow> \<lparr>cd_positionId = pos_id p, cd_success = False, cd_error = Some (exn_message e)\<rparr>) ps"
proof (induction ps arbitrary: a)
  case Nil
  then show ?case by simp
next
  case (Cons p ps)
  obtain r a1 where c: "mt5_closePosition br a (pos_id p) None = (r, a1)"
    by (cases "mt5_closePosition br a (pos_id p) None")
  have r: "r = br_closePosition br (pos_id p) None"
    using mt5_closePosition_fst [OF Cons.prems, of br "pos_id p" None] c by simp
  have "connected a1"
    using mt5_closePosition_connected [of br a "pos_id p" None] c Cons.prems by simp
  from Cons.IH [OF this] show ?case
    by (cases "close_each br a1 ps") (simp add: c r)
qed


lemma close_each_connected:
  "connected (snd (close_each br a ps)) = connected a"
proof (induction ps arbitrary: a)
  case Nil
  then show ?case by simp
next
  case (Cons p ps)
  obtain r a1 where c: "mt5_closePosition br a (pos_id p) None = (r, a1)"
    by (cases "mt5_closePosition br a (pos_id p) None")
  have "connected a1 = connected a"
    using mt5_closePosition_connected [of br a "pos_id p" None] c by simp
  with Cons.IH [of a1] show ?case
    by (cases "close_each br a1 ps") (simp add: c)
qed

lemma mt5_getPositions_ok:
  "connected a \<Longrightarrow> br_getPositions br = Inr ps \<Longrightarrow>
     fst (mt5_getPositions br a) = Inr ps \<and> connected (snd (mt5_getPositions br a))"
  by (simp add: mt5_getPositions_def sendCommand_def send_request_def settle_def Let_def
        split: prod.splits)

text \<open>What the calls of the broker adapter write, on a connected adapter.\<close>

lemma zip_upt_Cons:
  "zip [n ..< n + Suc k] (x # xs) = (n, x) # zip [Suc n ..< Suc n + k] xs"
  by (simp add: upt_conv_Cons del: upt_Suc)

lemma sendCommand_effect:
  fixes a :: fxify_adapter
  assumes "connected a"
  shows "written (snd (sendCommand a cmd answer)) = written a @ [(nextRequestId a, cmd)]"
    and "nextRequestId (snd (sendCommand a cmd answer)) = nextRequestId a + 1"
    and "connected (snd (sendCommand a cmd answer))"
    and "fxifyModeManager (snd (sendCommand a cmd answer)) = fxifyModeManager a"
    and "fst (sendCommand a cmd answer) = answer"
  using assms
  by (simp_all add: sendCommand_def send_request_def settle_def Let_def split: prod.splits)

lemma mt5_getPositions_effect:
  fixes a :: fxify_adapter
  assumes "connected a" and "br_getPositions br = Inr ps"
  shows "written (snd (mt5_getPositions br a)) = written a @ [(nextRequestId a, GET_POSITIONS)]"
    and "nextRequestId (snd (mt5_getPositions br a)) = nextRequestId a + 1"
    and "fxifyModeManager (snd (mt5_getPositions br a)) = fxifyModeManager a"
proof -
  obtain r a1 where s: "sendCommand a GET_POSITIONS (br_getPositions br) = (r, a1)"
    by (cases "sendCommand a GET_POSITIONS (br_getPositions br)")
  from sendCommand_effect [OF assms(1), of GET_POSITIONS "br_getPositions br"] s assms(2)
  have e: "written a1 = written a @ [(nextRequestId a, GET_POSITIONS)]"
    "nextRequestId a1 = nextRequestId a + 1" "fxifyModeManager a1 = fxifyModeManager a"
    "r = Inr ps"
    by simp_all
  show "written (snd (mt5_getPositions br a)) = written a @ [(nextRequestId a, GET_POSITIONS)]"
    and "nextRequestId (snd (mt5_getPositions br a)) = nextRequestId a + 1"
    and "fxifyModeManager (snd (mt5_getPositions br a)) = fxifyModeManager a"
    using assms(1) by (simp_all add: mt5_getPositions_def s e)
qed

lemma mt5_closePosition_effect:
  fixes a :: fxify_adapter
  assumes "connected a"
  shows "written (snd (mt5_closePosition br a i v)) = written a @ [(nextRequestId a, CLOSE_POSITION i v)]"
    and "nextRequestId (snd (mt5_closePosition br a i v)) = nextRequestId a + 1"
  using assms by (simp_all add: mt5_closePosition_def sendCommand_effect)

lemma close_each_effect:
  "connected a \<Longrightarrow>
     written (snd (close_each br a ps)) =
       written a @ zip [nextRequestId a ..< nextRequestId a + length ps]
                      (map (\<lambda>p. CLOSE_POSITION (pos_id p) None) ps)
     \<and> nextRequestId (snd (close_each br a ps)) = nextRequestId a + length ps
     \<and> fxifyModeManager (snd (close_each br a ps)) = fxifyModeManager a"
proof (induction ps arbitrary: a)
  case Nil
  then show ?case by simp
next
  case (Cons p ps)
  obtain r a1 where c: "mt5_closePosition br a (pos_id p) None = (r, a1)"
    by (cases "mt5_closePosition br a (pos_id p) None")
  have a1: "connected a1"
    "written a1 = written a @ [(nextRequestId a, CLOSE_POSITION (pos_id p) None)]"
    "nextRequestId a1 = nextRequestId a + 1"
    "fxifyModeManager a1 = fxifyModeManager a"
    using mt5_closePosition_connected [of br a "pos_id p" None]
      mt5_closePosition_effect [OF Cons.prems, of br "pos_id p" None]
      mt5_closePosition_manager [of br a "pos_id p" None] c Cons.prems
    by simp_all
  obtain ds a2 where ce: "close_each br a1 ps = (ds, a2)"
    by (cases "close_each br a1 ps")
  from Cons.IH [OF a1(1)] ce
  have "written a2 = written a1 @ zip [nextRequestId a1 ..< nextRequestId a1 + length ps]
                      (map (\<lambda>p. CLOSE_POSITION (pos_id p) None) ps)"
    "nextRequestId a2 = nextRequestId a1 + length ps"
    "fxifyModeManager a2 = fxifyModeManager a1"
    by simp_all
  then show ?case
    using zip_upt_Cons [of "nextRequestId a" "length ps" "CLOSE_POSITION (pos_id p) None"
                          "map (\<lambda>p. CLOSE_POSITION (pos_id p) None) ps"]
    by (simp add: c ce a1 del: upt_Suc)
qed

lemma refreshDrawdownMonitor_effect:
  assumes "connected a"
  shows "written (refreshDrawdownMonitor br now a) = written a @ [(nextRequestId a, GET_ACCOUNT_INFO)]"
    and "fxifyModeManager (refreshDrawdownMonitor br now a) =
           (case br_getAccountInfo br of
              Inl e \<Rightarrow> fxifyModeManager a
            | Inr info \<Rightarrow> mgr_updateBalance (fxifyModeManager a) now (ai_balance info) (ai_equity info))"
proof -
  obtain a1 where s: "sendCommand a GET_ACCOUNT_INFO (br_getAccountInfo br) = (br_getAccountInfo br, a1)"
    using sendCommand_effect(5) [OF assms, of GET_ACCOUNT_INFO "br_getAccountInfo br"]
    by (cases "sendCommand a GET_ACCOUNT_INFO (br_getAccountInfo br)") simp
  from sendCommand_effect [OF assms, of GET_ACCOUNT_INFO "br_getAccountInfo br"] s
  have e: "written a1 = written a @ [(nextRequestId a, GET_ACCOUNT_INFO)]"
    "fxifyModeManager a1 = fxifyModeManager a"
    by simp_all
  have r: "refreshDrawdownMonitor br now a =
             (case br_getAccountInfo br of
                Inl e \<Rightarrow> a1
              | Inr info \<Rightarrow> a1\<lparr>accountInfo := Some info,
                                 fxifyModeManager :=
                                   mgr_updateBalance (fxifyModeManager a1) now
                                     (ai_balance info) (ai_equity info)\<rparr>)"
    using assms s
    by (cases "br_getAccountInfo br")
       (simp_all add: refreshDrawdownMonitor_def mt5_getAccountInfo_def)
  show "written (refreshDrawdownMonitor br now a) = written a @ [(nextRequestId a, GET_ACCOUNT_INFO)]"
    unfolding r by (simp add: e split: sum.splits)
  show "fxifyModeManager (refreshDrawdownMonitor br now a) =
           (case br_getAccountInfo br of
              Inl e \<Rightarrow> fxifyModeManager a
            | Inr info \<Rightarrow> mgr_updateBalance (fxifyModeManager a) now (ai_balance info) (ai_equity info))"
    unfolding r by (simp add: e split: sum.splits)
qed

text \<open>
  C6: \<open>closeAllPositions\<close> closes every open position on its own and tolerates the
  failures: with the \<open>n\<close> positions the broker reports, of which \<open>k\<close> close successfully,
  it returns \<open>{closed: k, total: n, details}\<close> with one entry of \<open>details\<close> per position, in
  order, and \<open>success\<close> true exactly when \<open>k = n\<close>. After the request for the positions
  it writes one \<open>CLOSE_POSITION\<close> frame per position to the bridge, in order, whatever the
  earlier closes answered; when at least one close succeeded and FXIFY is active it then
  fetches the account and updates the drawdown monitor.
\<close>

theorem closeAllPositions_aggregate:
  assumes "connected a" and "br_getPositions br = Inr ps"
  shows "\<exists>r a'. closeAllPositions br now a reason = (Aggregate r, a')
           \<and> ca_total r = length ps
           \<and> ca_closed r =
               length (filter (\<lambda>p. case br_closePosition br (pos_id p) None of
                                      Inr result \<Rightarrow> cr_success result | Inl e \<Rightarrow> False) ps)
           \<and> map cd_positionId (ca_details r) = map pos_id ps
           \<and> (ca_success r \<longleftrightarrow> ca_closed r = ca_total r)
           \<and> ca_reason r = reason
           \<and> ca_details r =
               map (\<lambda>p. case br_closePosition br (pos_id p) None of
                           Inr result \<Rightarrow> \<lparr>cd_positionId = pos_id p, cd_success = cr_success result,
                                           cd_error = None\<rparr>
                         | Inl e \<Rightarrow> \<lparr>cd_positionId = pos_id p, cd_success = False,
                                      cd_error = Some (exn_message e)\<rparr>) ps
           \<and> written a' =
               written a @ [(nextRequestId a, GET_POSITIONS)]
               @ zip [nextRequestId a + 1 ..< nextRequestId a + 1 + length ps]
                     (map (\<lambda>p. CLOSE_POSITION (pos_id p) None) ps)
               @ (if 0 < ca_closed r \<and> isFXIFYModeActive a
                  then [(nextRequestId a + 1 + length ps, GET_ACCOUNT_INFO)] else [])
           \<and> fxifyModeManager a' =
               (if 0 < ca_closed r \<and> isFXIFYModeActive a
                then (case br_getAccountInfo br of
                        Inl e \<Rightarrow> fxifyModeManager a
                      | Inr info \<Rightarrow> mgr_updateBalance (fxifyModeManager a) now
                                      (ai_balance info) (ai_equity info))
                else fxifyModeManager a)"
proof -
  obtain a1 where g: "mt5_getPositions br a = (Inr ps, a1)" and c1: "connected a1"
    using mt5_getPositions_ok [OF assms] by (cases "mt5_getPositions br a") auto
  have a1: "written a1 = written a @ [(nextRequestId a, GET_POSITIONS)]"
    "nextRequestId a1 = nextRequestId a + 1" "fxifyModeManager a1 = fxifyModeManager a"
    using mt5_getPositions_effect [OF assms] g by simp_all
  obtain results a2 where ce: "close_each br a1 ps = (results, a2)"
    by (cases "close_each br a1 ps")
  have res: "results =
       map (\<lambda>p. case br_closePosition br (pos_id p) None of
                   Inr result \<Rightarrow> \<lparr>cd_positionId = pos_id p, cd_success = cr_success result, cd_error = None\<rparr>
                 | Inl e \<Rightarrow> \<lparr>cd_positionId = pos_id p, cd_success = False, cd_error = Some (exn_message e)\<rparr>) ps"
    using close_each_details [OF c1, of br ps] ce by simp
  have a2: "written a2 = written a1 @ zip [nextRequestId a1 ..< nextRequestId a1 + length ps]
                      (map (\<lambda>p. CLOSE_POSITION (pos_id p) None) ps)"
    "nextRequestId a2 = nextRequestId a1 + length ps"
    "fxifyModeManager a2 = fxifyModeManager a1"
    and c2: "connected a2"
    using close_each_effect [OF c1, of br ps] close_each_connected [of br a1 ps] ce c1
    by simp_all
  have act: "isFXIFYModeActive a2 = isFXIFYModeActive a"
    by (simp add: isFXIFYModeActive_def a2(3) a1(3))
  have ids: "map cd_positionId results = map pos_id ps"
    unfolding res by (simp add: comp_def split: sum.splits)
  have cnt: "length (filter cd_success results) =
       length (filter (\<lambda>p. case br_closePosition br (pos_id p) None of
                              Inr result \<Rightarrow> cr_success result | Inl e \<Rightarrow> False) ps)"
    unfolding res length_filter_map
    by (rule arg_cong [where f = length], rule filter_cong) (auto split: sum.splits)
  define k where "k = length (filter (\<lambda>p. case br_closePosition br (pos_id p) None of
                              Inr result \<Rightarrow> cr_success result | Inl e \<Rightarrow> False) ps)"
  define a3 where "a3 = (if 0 < k \<and> isFXIFYModeActive a then refreshDrawdownMonitor br now a2 else a2)"
  have kr: "k = length (filter cd_success results)"
    by (simp only: k_def cnt)
  have call: "closeAllPositions br now a reason =
      (Aggregate \<lparr>ca_success = (k = length ps), ca_closed = k, ca_total = length ps,
                  ca_reason = reason, ca_details = results\<rparr>, a3)"
    by (simp add: closeAllPositions_def g ce Let_def act a3_def kr)
  have w3: "written a3 =
               written a @ [(nextRequestId a, GET_POSITIONS)]
               @ zip [nextRequestId a + 1 ..< nextRequestId a + 1 + length ps]
                     (map (\<lambda>p. CLOSE_POSITION (pos_id p) None) ps)
               @ (if 0 < k \<and> isFXIFYModeActive a
                  then [(nextRequestId a + 1 + length ps, GET_ACCOUNT_INFO)] else [])"
    by (simp add: a3_def refreshDrawdownMonitor_effect(1) [OF c2] a2 a1 del: upt_Suc)
  have m3: "fxifyModeManager a3 =
               (if 0 < k \<and> isFXIFYModeActive a
                then (case br_getAccountInfo br of
                        Inl e \<Rightarrow> fxifyModeManager a
                      | Inr info \<Rightarrow> mgr_updateBalance (fxifyModeManager a) now
                                      (ai_balance info) (ai_equity info))
                else fxifyModeManager a)"
    by (simp add: a3_def refreshDrawdownMonitor_effect(2) [OF c2] a2 a1 split: sum.splits)
  define r where
    "r = \<lparr>ca_success = (k = length ps), ca_closed = k, ca_total = length ps,
           ca_reason = reason, ca_details = results\<rparr>"
  have sel: "ca_total r = length ps" "ca_closed r = k" "ca_details r = results"
    "ca_success r \<longleftrightarrow> ca_closed r = ca_total r"
    by (simp_all add: r_def)
  show ?thesis
    unfolding k_def [symmetric]
  proof (intro exI conjI)
    show "closeAllPositions br now a reason = (Aggregate r, a3)"
      by (simp only: call r_def)
    show "ca_total r = length ps" by (rule sel(1))
    show "ca_closed r = k" by (rule sel(2))
    show "map cd_positionId (ca_details r) = map pos_id ps"
      by (simp only: sel(3) ids)
    show "ca_success r \<longleftrightarrow> ca_closed r = ca_total r" by (rule sel(4))
    show "ca_reason r = reason" by (simp add: r_def)
    show "ca_details r =
               map (\<lambda>p. case br_closePosition br (pos_id p) None of
                           Inr result \<Rightarrow> \<lparr>cd_positionId = pos_id p, cd_success = cr_success result,
                                           cd_error = None\<rparr>
                         | Inl e \<Rightarrow> \<lparr>cd_positionId = pos_id p, cd_success = False,
                                      cd_error = Some (exn_message e)\<rparr>) ps"
      unfolding sel(3) by (rule res)
    show "written a3 =
               written a @ [(nextRequestId a, GET_POSITIONS)]
               @ zip [nextRequestId a + 1 ..< nextRequestId a + 1 + length ps]
                     (map (\<lambda>p. CLOSE_POSITION (pos_id p) None) ps)
               @ (if 0 < ca_closed r \<and> isFXIFYModeActive a
                  then [(nextRequestId a + 1 + length ps, GET_ACCOUNT_INFO)] else [])"
      unfolding sel(2) by (rule w3)
    show "fxifyModeManager a3 =
               (if 0 < ca_closed r \<and> isFXIFYModeActive a
                then (case br_getAccountInfo br of
                        Inl e \<Rightarrow> fxifyModeManager a
                      | Inr info \<Rightarrow> mgr_updateBalance (fxifyModeManager a) now
                                      (ai_balance info) (ai_equity info))
                else fxifyModeManager a)"
      unfolding sel(2) by (rule m3)
  qed
qed

text \<open>Three positions, the close of the second throws: \<open>{closed: 2, total: 3,
  success: false}\<close>, three entries in \<open>details\<close>, and three close frames written.\<close>

theorem closeAllPositions_aggregate_witness:
  "connected ((new_MT5FXIFYAdapter day1)\<lparr>connected := True\<rparr>)
   \<and> br_getPositions scenario4_bridge =
       Inr [\<lparr>pos_id = 11, pos_symbol = ''EURUSD'', pos_volume = 1\<rparr>,
            \<lparr>pos_id = 12, pos_symbol = ''GBPUSD'', pos_volume = 0.5\<rparr>,
            \<lparr>pos_id = 13, pos_symbol = ''USDJPY'', pos_volume = 2\<rparr>]
   \<and> fst (closeAllPositions scenario4_bridge day1
             ((new_MT5FXIFYAdapter day1)\<lparr>connected := True\<rparr>) ''FXIFY rule enforcement'') =
       Aggregate \<lparr>ca_success = False, ca_closed = 2, ca_total = 3,
                  ca_reason = ''FXIFY rule enforcement'',
                  ca_details =
                    [\<lparr>cd_positionId = 11, cd_success = True, cd_error = None\<rparr>,
                     \<lparr>cd_positionId = 12, cd_success = False, cd_error = Some ''Trade server busy''\<rparr>,
                     \<lparr>cd_positionId = 13, cd_success = True, cd_error = None\<rparr>]\<rparr>
   \<and> written (snd (closeAllPositions scenario4_bridge day1
             ((new_MT5FXIFYAdapter day1)\<lparr>connected := True\<rparr>) ''FXIFY rule enforcement'')) =
       [(1, GET_POSITIONS), (2, CLOSE_POSITION 11 None), (3, CLOSE_POSITION 12 None),
        (4, CLOSE_POSITION 13 None)]"
proof -
  have c: "connected ((new_MT5FXIFYAdapter day1)\<lparr>connected := True\<rparr>)"
    by simp
  have p: "br_getPositions scenario4_bridge =
       Inr [\<lparr>pos_id = 11, pos_symbol = ''EURUSD'', pos_volume = 1\<rparr>,
            \<lparr>pos_id = 12, pos_symbol = ''GBPUSD'', pos_volume = 0.5\<rparr>,
            \<lparr>pos_id = 13, pos_symbol = ''USDJPY'', pos_volume = 2\<rparr>]"
    by (simp add: scenario4_bridge_def)
  have i: "\<not> isFXIFYModeActive ((new_MT5FXIFYAdapter day1)\<lparr>connected := True\<rparr>)"
    "written ((new_MT5FXIFYAdapter day1)\<lparr>connected := True\<rparr>) = []"
    "nextRequestId ((new_MT5FXIFYAdapter day1)\<lparr>connected := True\<rparr>) = 1"
    by (simp_all add: isFXIFYModeActive_def new_MT5FXIFYAdapter_def new_FXIFYModeManager_def)
  define ps where
    "ps = [\<lparr>pos_id = 11, pos_symbol = ''EURUSD'', pos_volume = 1\<rparr>,
           \<lparr>pos_id = 12, pos_symbol = ''GBPUSD'', pos_volume = 0.5\<rparr>,
           \<lparr>pos_id = 13, pos_symbol = ''USDJPY'', pos_volume = 2\<rparr>]"
  have l: "length ps = 3"
    by (simp add: ps_def)
  have u: "zip [(1::nat) + 1 ..< 1 + 1 + 3] (map (\<lambda>p. CLOSE_POSITION (pos_id p) None) ps) =
             [(2, CLOSE_POSITION 11 None), (3, CLOSE_POSITION 12 None), (4, CLOSE_POSITION 13 None)]"
    by (simp add: ps_def upt_conv_Cons del: upt_Suc)
  have k: "length (filter (\<lambda>p. case br_closePosition scenario4_bridge (pos_id p) None of
                                  Inr result \<Rightarrow> cr_success result | Inl e \<Rightarrow> False) ps) = 2"
    by (simp add: ps_def scenario4_bridge_def)
  have dt: "map (\<lambda>p. case br_closePosition scenario4_bridge (pos_id p) None of
                           Inr result \<Rightarrow> \<lparr>cd_positionId = pos_id p, cd_success = cr_success result,
                                           cd_error = None\<rparr>
                         | Inl e \<Rightarrow> \<lparr>cd_positionId = pos_id p, cd_success = False,
                                      cd_error = Some (exn_message e)\<rparr>) ps =
            [\<lparr>cd_positionId = 11, cd_success = True, cd_error = None\<rparr>,
             \<lparr>cd_positionId = 12, cd_success = False, cd_error = Some ''Trade server busy''\<rparr>,
             \<lparr>cd_positionId = 13, cd_success = True, cd_error = None\<rparr>]"
    by (simp add: ps_def scenario4_bridge_def)
  from closeAllPositions_aggregate [OF c p [folded ps_def], of day1 "''FXIFY rule enforcement''"]
  obtain r a' where r: "closeAllPositions scenario4_bridge day1
             ((new_MT5FXIFYAdapter day1)\<lparr>connected := True\<rparr>) ''FXIFY rule enforcement'' = (Aggregate r, a')"
    and raw: "ca_total r = length ps"
      "ca_closed r = length (filter (\<lambda>p. case br_closePosition scenario4_bridge (pos_id p) None of
                                  Inr result \<Rightarrow> cr_success result | Inl e \<Rightarrow> False) ps)"
      "ca_success r \<longleftrightarrow> ca_closed r = ca_total r"
      "ca_reason r = ''FXIFY rule enforcement''"
      "ca_details r = map (\<lambda>p. case br_closePosition scenario4_bridge (pos_id p) None of
                           Inr result \<Rightarrow> \<lparr>cd_positionId = pos_id p, cd_success = cr_success result,
                                           cd_error = None\<rparr>
                         | Inl e \<Rightarrow> \<lparr>cd_positionId = pos_id p, cd_success = False,
                                      cd_error = Some (exn_message e)\<rparr>) ps"
    and wraw: "written a' =
               written ((new_MT5FXIFYAdapter day1)\<lparr>connected := True\<rparr>)
               @ [(nextRequestId ((new_MT5FXIFYAdapter day1)\<lparr>connected := True\<rparr>), GET_POSITIONS)]
               @ zip [nextRequestId ((new_MT5FXIFYAdapter day1)\<lparr>connected := True\<rparr>) + 1
                      ..< nextRequestId ((new_MT5FXIFYAdapter day1)\<lparr>connected := True\<rparr>) + 1 + length ps]
                     (map (\<lambda>p. CLOSE_POSITION (pos_id p) None) ps)
               @ (if 0 < ca_closed r \<and> isFXIFYModeActive ((new_MT5FXIFYAdapter day1)\<lparr>connected := True\<rparr>)
                  then [(nextRequestId ((new_MT5FXIFYAdapter day1)\<lparr>connected := True\<rparr>) + 1 + length ps,
                         GET_ACCOUNT_INFO)] else [])"
    by blast
  have f: "ca_total r = 3" "ca_closed r = 2" "ca_success r \<longleftrightarrow> ca_closed r = ca_total r"
      "ca_reason r = ''FXIFY rule enforcement''"
      "ca_details r = [\<lparr>cd_positionId = 11, cd_success = True, cd_error = None\<rparr>,
            \<lparr>cd_positionId = 12, cd_success = False, cd_error = Some ''Trade server busy''\<rparr>,
            \<lparr>cd_positionId = 13, cd_success = True, cd_error = None\<rparr>]"
    using raw by (simp_all only: l k dt)
  have w: "written a' = [(1, GET_POSITIONS), (2, CLOSE_POSITION 11 None),
                          (3, CLOSE_POSITION 12 None), (4, CLOSE_POSITION 13 None)]"
    using wraw unfolding i(2,3) l u by (simp add: i(1))
  from f have "r = \<lparr>ca_success = False, ca_closed = 2, ca_total = 3,
                  ca_reason = ''FXIFY rule enforcement'',
                  ca_details =
                    [\<lparr>cd_positionId = 11, cd_success = True, cd_error = None\<rparr>,
                     \<lparr>cd_positionId = 12, cd_success = False, cd_error = Some ''Trade server busy''\<rparr>,
                     \<lparr>cd_positionId = 13, cd_success = True, cd_error = None\<rparr>]\<rparr>"
    by (cases r) simp
  with c p r w show ?thesis by simp
qed

section \<open>Risk-gated adapter: FXIFY inactive\<close>

lemma truncate_sel:
  "connected (mt5_adapter.truncate a) = connected a"
  "callbacks (mt5_adapter.truncate a) = callbacks a"
  "nextRequestId (mt5_adapter.truncate a) = nextRequestId a"
  "written (mt5_adapter.truncate a) = written a"
  "settled (mt5_adapter.truncate a) = settled a"
  by (simp_all add: mt5_adapter.truncate_def)

lemma truncate_sendCommand:
  "mt5_adapter.truncate (snd (sendCommand a cmd answer)) =
     snd (sendCommand (mt5_adapter.truncate a) cmd answer)"
  "fst (sendCommand (mt5_adapter.truncate a) cmd answer) = fst (sendCommand a cmd answer)"
  by (simp_all add: sendCommand_def send_request_def settle_def Let_def
        mt5_adapter.truncate_def split: prod.splits)

lemma truncate_mt5_placeMarketOrder:
  "mt5_adapter.truncate (snd (mt5_placeMarketOrder br a ord)) =
     snd (mt5_placeMarketOrder br (mt5_adapter.truncate a) ord)"
  "fst (mt5_placeMarketOrder br (mt5_adapter.truncate a) ord) = fst (mt5_placeMarketOrder br a ord)"
  by (simp_all add: mt5_placeMarketOrder_def truncate_sendCommand truncate_sel split: sum.splits)

lemma mt5_placeMarketOrder_frame:
  "fxifyModeManager (snd (mt5_placeMarketOrder br a ord)) = fxifyModeManager a"
  "emitted (snd (mt5_placeMarketOrder br a ord)) = emitted a"
  by (simp_all add: mt5_placeMarketOrder_def sendCommand_def send_request_def settle_def Let_def
        split: sum.splits prod.splits)

text \<open>
  C8: when FXIFY mode is inactive, \<open>placeMarketOrder\<close> of the risk-gated adapter is
  \<open>placeMarketOrder\<close> of the broker adapter on the same order: the same result, the same
  effect on the broker adapter's state (the adapter with its extension cut off), no event
  emitted, and the mode manager, with its drawdown monitor, untouched.
\<close>

theorem placeMarketOrder_inactive:
  assumes "\<not> isFXIFYModeActive a"
  shows "fst (placeMarketOrder br now a ord) =
           map_sum id Placed (fst (mt5_placeMarketOrder br (mt5_adapter.truncate a) ord))
         \<and> mt5_adapter.truncate (snd (placeMarketOrder br now a ord)) =
             snd (mt5_placeMarketOrder br (mt5_adapter.truncate a) ord)
         \<and> fxifyModeManager (snd (placeMarketOrder br now a ord)) = fxifyModeManager a
         \<and> emitted (snd (placeMarketOrder br now a ord)) = emitted a"
proof -
  obtain r a1 where p: "mt5_placeMarketOrder br a ord = (r, a1)"
    by (cases "mt5_placeMarketOrder br a ord")
  have "placeMarketOrder br now a ord = (map_sum id Placed r, a1)"
    using assms by (simp add: placeMarketOrder_def p split: sum.splits)
  moreover have "fst (mt5_placeMarketOrder br (mt5_adapter.truncate a) ord) = r"
    using truncate_mt5_placeMarketOrder(2) [of br a ord] p by simp
  moreover have "snd (mt5_placeMarketOrder br (mt5_adapter.truncate a) ord) = mt5_adapter.truncate a1"
    using truncate_mt5_placeMarketOrder(1) [of br a ord] p by simp
  moreover have "fxifyModeManager a1 = fxifyModeManager a" "emitted a1 = emitted a"
    using mt5_placeMarketOrder_frame [of br a ord] p by simp_all
  ultimately show ?thesis by simp
qed

text \<open>
  A fresh adapter (FXIFY inactive), connected: the order goes to the bridge with its
  parameters as given.
\<close>

theorem placeMarketOrder_inactive_witness:
  "\<not> isFXIFYModeActive ((new_MT5FXIFYAdapter day1)\<lparr>connected := True\<rparr>)
   \<and> fst (placeMarketOrder scenario4_bridge day1 ((new_MT5FXIFYAdapter day1)\<lparr>connected := True\<rparr>) buy_order)
       = Inr (Placed \<lparr>or_success = True, or_orderId = 1\<rparr>)
   \<and> written (snd (placeMarketOrder scenario4_bridge day1 ((new_MT5FXIFYAdapter day1)\<lparr>connected := True\<rparr>) buy_order))
       = [(1, PLACE_ORDER \<lparr>pp_type = ''MARKET'', pp_symbol = Some ''EURUSD'', pp_volume = Some 0.5,
              pp_direction = ''BUY'', pp_stopLoss = Some 1.095, pp_takeProfit = None,
              pp_comment = ''SAITRAPP''\<rparr>)]
   \<and> fxifyModeManager (snd (placeMarketOrder scenario4_bridge day1 ((new_MT5FXIFYAdapter day1)\<lparr>connected := True\<rparr>) buy_order))
       = new_FXIFYModeManager day1"
proof -
  have i: "\<not> isFXIFYModeActive ((new_MT5FXIFYAdapter day1)\<lparr>connected := True\<rparr>)"
    by (simp add: isFXIFYModeActive_def new_MT5FXIFYAdapter_def new_FXIFYModeManager_def)
  have m: "mt5_placeMarketOrder scenario4_bridge
             (mt5_adapter.truncate ((new_MT5FXIFYAdapter day1)\<lparr>connected := True\<rparr>)) buy_order =
           (Inr \<lparr>or_success = True, or_orderId = 1\<rparr>,
            new_MT5BrokerAdapter\<lparr>connected := True, nextRequestId := 2,
              written := [(1, PLACE_ORDER \<lparr>pp_type = ''MARKET'', pp_symbol = Some ''EURUSD'', pp_volume = Some 0.5,
              pp_direction = ''BUY'', pp_stopLoss = Some 1.095, pp_takeProfit = None,
              pp_comment = ''SAITRAPP''\<rparr>)],
              settled := [(1, Resolved)]\<rparr>)"
    by (simp add: mt5_placeMarketOrder_def market_order_params_def buy_order_def toUpperCase_def
          sendCommand_def send_request_def settle_def Let_def mt5_adapter.truncate_def
          new_MT5FXIFYAdapter_def new_MT5BrokerAdapter_def scenario4_bridge_def str_or_def)
  from placeMarketOrder_inactive [OF i, of scenario4_bridge day1 buy_order, unfolded m]
  have "fst (placeMarketOrder scenario4_bridge day1 ((new_MT5FXIFYAdapter day1)\<lparr>connected := True\<rparr>) buy_order)
       = Inr (Placed \<lparr>or_success = True, or_orderId = 1\<rparr>)"
    and "written (mt5_adapter.truncate (snd (placeMarketOrder scenario4_bridge day1 ((new_MT5FXIFYAdapter day1)\<lparr>connected := True\<rparr>) buy_order)))
       = [(1, PLACE_ORDER \<lparr>pp_type = ''MARKET'', pp_symbol = Some ''EURUSD'', pp_volume = Some 0.5,
              pp_direction = ''BUY'', pp_stopLoss = Some 1.095, pp_takeProfit = None,
              pp_comment = ''SAITRAPP''\<rparr>)]"
    and "fxifyModeManager (snd (placeMarketOrder scenario4_bridge day1 ((new_MT5FXIFYAdapter day1)\<lparr>connected := True\<rparr>) buy_order))
       = new_FXIFYModeManager day1"
    by (simp_all add: new_MT5BrokerAdapter_def new_MT5FXIFYAdapter_def)
  with i show ?thesis by (simp add: truncate_sel)
qed

section \<open>Validation: the rules of a failed validation\<close>

lemma evaluate_rules_throws:
  "(n, ev) \<in> set evs \<Longrightarrow> ev mon cal now req p = Inl e \<Longrightarrow>
     \<exists>e'. evaluate_rules evs mon cal now req p vs ws = Inl e'"
proof (induction evs arbitrary: vs ws)
  case Nil
  then show ?case by simp
next
  case (Cons x evs)
  obtain n' ev' where x: "x = (n', ev')" by (cases x)
  show ?case
  proof (cases "ev' mon cal now req p")
    case (Inl e')
    then show ?thesis by (simp add: x)
  next
    case (Inr r)
    with Cons.prems x have "(n, ev) \<in> set evs" by auto
    from Cons.IH [OF this Cons.prems(2)] show ?thesis
      by (simp add: x Inr)
  qed
qed

lemma evaluate_rules_grows:
  "evaluate_rules evs mon cal now req p vs ws = Inr (vs', ws') \<Longrightarrow> \<exists>xs. vs' = vs @ xs"
proof (induction evs arbitrary: vs ws)
  case Nil
  then show ?case by simp
next
  case (Cons x evs)
  obtain n' ev' where x: "x = (n', ev')" by (cases x)
  show ?case
  proof (cases "ev' mon cal now req p")
    case (Inl e')
    with Cons.prems show ?thesis by (simp add: x)
  next
    case (Inr r)
    show ?thesis
    proof (cases "ev_valid r")
      case True
      with Cons.prems Inr x Cons.IH show ?thesis
        by (auto split: if_splits)
    next
      case False
      with Cons.prems Inr x
      have "\<exists>xs. vs' = (vs @ [\<lparr>rule = n', severity = str_or (ev_severity r) ''error'',
                       message = ev_message r, details = ev_details r\<rparr>]) @ xs"
        by (intro Cons.IH [of _ ws]) simp
      then show ?thesis by auto
    qed
  qed
qed

lemma evaluate_rules_all_valid:
  "evaluate_rules evs mon cal now req p vs ws = Inr (vs', ws') \<Longrightarrow> length vs' = length vs \<Longrightarrow>
     (n, ev) \<in> set evs \<Longrightarrow> \<exists>r. ev mon cal now req p = Inr r \<and> ev_valid r"
proof (induction evs arbitrary: vs ws)
  case Nil
  then show ?case by simp
next
  case (Cons x evs)
  obtain n' ev' where x: "x = (n', ev')" by (cases x)
  show ?case
  proof (cases "ev' mon cal now req p")
    case (Inl e')
    with Cons.prems show ?thesis by (simp add: x)
  next
    case (Inr r)
    show ?thesis
    proof (cases "ev_valid r")
      case True
      show ?thesis
      proof (cases "(n, ev) = (n', ev')")
        case True
        with Inr \<open>ev_valid r\<close> show ?thesis by simp
      next
        case False
        with Cons.prems x have m: "(n, ev) \<in> set evs" by auto
        from Cons.prems(1) Inr x \<open>ev_valid r\<close>
        have "\<exists>ws0. evaluate_rules evs mon cal now req p vs ws0 = Inr (vs', ws')"
          by (auto split: if_splits)
        then obtain ws0 where "evaluate_rules evs mon cal now req p vs ws0 = Inr (vs', ws')" ..
        from Cons.IH [OF this Cons.prems(2) m] show ?thesis .
      qed
    next
      case False
      with Cons.prems(1) Inr x
      have "evaluate_rules evs mon cal now req p
              (vs @ [\<lparr>rule = n', severity = str_or (ev_severity r) ''error'',
                       message = ev_message r, details = ev_details r\<rparr>]) ws = Inr (vs', ws')"
        by simp
      from evaluate_rules_grows [OF this] Cons.prems(2) show ?thesis by auto
    qed
  qed
qed



lemma checkNewsEvents_proceed: "checkNewsEvents mm s = proceed"
  by (simp add: checkNewsEvents_def split: sum.splits option.splits)

lemma checkDrawdownLimits_invalid:
  "\<not> valid (checkDrawdownLimits mm pl) \<Longrightarrow> \<exists>v. rules (checkDrawdownLimits mm pl) = Some [v]"
  by (auto simp add: checkDrawdownLimits_def checkDrawdownLimits_try_def Let_def
        split: if_splits sum.splits option.splits)

lemma checkTradingHours_invalid:
  "\<not> valid (checkTradingHours mm now s) \<Longrightarrow> \<exists>v. rules (checkTradingHours mm now s) = Some [v]"
  by (auto simp add: checkTradingHours_def checkTradingHours_try_def Let_def
        split: if_splits sum.splits option.splits)

lemma evaluateTradeRequest_invalid:
  assumes "\<not> valid (evaluateTradeRequest eng now req prof)"
  shows "\<exists>v vs. rules (evaluateTradeRequest eng now req prof) = Some (v # vs)"
proof (cases "evaluateTradeRequest_try eng now req prof")
  case (Inl e)
  then show ?thesis by (simp add: evaluateTradeRequest_def)
next
  case (Inr r)
  with assms have r: "evaluateTradeRequest eng now req prof = r" "\<not> valid r"
    by (simp_all add: evaluateTradeRequest_def)
  from Inr r(2) obtain ruleViolations warnings
    where "r = \<lparr>valid = (length ruleViolations = 0), rules = Some (ruleViolations @ warnings)\<rparr>"
    by (auto simp add: evaluateTradeRequest_try_def split: option.splits sum.splits)
  with r(2) obtain v vs where "rules r = Some (v # vs)"
    by (cases ruleViolations) auto
  with r(1) show ?thesis by simp
qed

lemma validateOrder_view:
  assumes "isActive mgr" and "activeProfile mgr = Some p"
  shows "validateOrder (validator_view mgr now) now ord =
     (if \<not> valid (checkDrawdownLimits (validator_view mgr now)
                     (estimatePotentialLoss (validator_view mgr now) ord))
      then checkDrawdownLimits (validator_view mgr now)
             (estimatePotentialLoss (validator_view mgr now) ord)
      else if \<not> valid (checkTradingHours (validator_view mgr now) now (symbol ord))
      then checkTradingHours (validator_view mgr now) now (symbol ord)
      else evaluateTradeRequest (rulesEngine mgr) now
             (with_potentialLoss ord (estimatePotentialLoss (validator_view mgr now) ord))
             (Some p))"
proof -
  have v: "mo_isFXIFYModeActive (validator_view mgr now)"
      "mo_getActiveProfile (validator_view mgr now) = Inr (Some p)"
      "mo_validateTradeAgainstRules (validator_view mgr now) =
         (\<lambda>request. Inr (evaluateTradeRequest (rulesEngine mgr) now request (Some p)))"
    using assms by (simp_all add: validator_view_def validateTradeAgainstRules_def)
  show ?thesis
    by (simp add: validateOrder_def validateOrder_try_def v checkNewsEvents_proceed proceed_def
          Let_def)
qed

lemma validateOrder_view_invalid:
  assumes "isActive mgr" and "\<not> valid (validateOrder (validator_view mgr now) now ord)"
  shows "\<exists>v vs. rules (validateOrder (validator_view mgr now) now ord) = Some (v # vs)"
proof (cases "activeProfile mgr")
  case None
  with assms have "validateOrder (validator_view mgr now) now ord = \<lparr>valid = True, rules = Some []\<rparr>"
    by (simp add: validateOrder_def validateOrder_try_def validator_view_def)
  with assms(2) show ?thesis by simp
next
  case (Some p)
  note vo = validateOrder_view [OF assms(1) Some, of now ord]
  show ?thesis
  proof (cases "valid (checkDrawdownLimits (validator_view mgr now)
                     (estimatePotentialLoss (validator_view mgr now) ord))")
    case False
    from checkDrawdownLimits_invalid [OF this] False show ?thesis
      unfolding vo by auto
  next
    case dc: True
    show ?thesis
    proof (cases "valid (checkTradingHours (validator_view mgr now) now (symbol ord))")
      case False
      from checkTradingHours_invalid [OF this] False dc show ?thesis
        unfolding vo by auto
    next
      case True
      with dc assms(2) have
        "\<not> valid (evaluateTradeRequest (rulesEngine mgr) now
             (with_potentialLoss ord (estimatePotentialLoss (validator_view mgr now) ord))
             (Some p))"
        unfolding vo by simp
      from evaluateTradeRequest_invalid [OF this] True dc show ?thesis
        unfolding vo by simp
    qed
  qed
qed

text \<open>
  C4: when FXIFY mode is active and the validation of an order fails, \<open>placeMarketOrder\<close>
  emits \<open>fxify:rule_violation\<close> with the violations and returns
  \<open>{success: false, message, violations}\<close>; it does not throw (a failed validation always
  carries at least one violation, so the message can be read), and nothing is written to
  the bridge: the adapter changes in its emitted events only.
\<close>

theorem placeMarketOrder_rule_violation:
  assumes "isFXIFYModeActive a"
    and "\<not> valid (validateAgainstFXIFYRules a now ord)"
  shows "\<exists>v vs. rules (validateAgainstFXIFYRules a now ord) = Some (v # vs)
           \<and> placeMarketOrder br now a ord =
               (Inr (Refused (''FXIFY rule violation: '' @
                               (case message v of None \<Rightarrow> ''undefined'' | Some m \<Rightarrow> m))
                             (v # vs)),
                a\<lparr>emitted := emitted a @ [RuleViolation (v # vs)]\<rparr>)
           \<and> written (snd (placeMarketOrder br now a ord)) = written a"
proof -
  have va: "validateAgainstFXIFYRules a now ord =
              validateOrder (validator_view (fxifyModeManager a) now) now ord"
    using assms(1) by (simp add: validateAgainstFXIFYRules_def)
  from assms obtain v vs where r: "rules (validateAgainstFXIFYRules a now ord) = Some (v # vs)"
    using validateOrder_view_invalid [of "fxifyModeManager a" now ord]
    unfolding va isFXIFYModeActive_def by blast
  with assms have "placeMarketOrder br now a ord =
               (Inr (Refused (''FXIFY rule violation: '' @
                               (case message v of None \<Rightarrow> ''undefined'' | Some m \<Rightarrow> m))
                             (v # vs)),
                a\<lparr>emitted := emitted a @ [RuleViolation (v # vs)]\<rparr>)"
    by (simp add: placeMarketOrder_def handleRuleViolation_def Let_def)
  with r show ?thesis by simp
qed

lemma active_manager_sel:
  "isActive (active_manager p now bal)"
  "activeProfile (active_manager p now bal) = Some p"
  "tradingCalendar (rulesEngine (active_manager p now bal)) = None"
  "ruleEvaluators (rulesEngine (active_manager p now bal)) = initializeRuleEvaluators"
  "re_currentBalance (rulesEngine (active_manager p now bal)) = bal"
  "drawdownMonitor (rulesEngine (active_manager p now bal)) =
     initialize (new_DrawdownMonitor now) now bal (p_maxDailyDrawdown p) (p_maxTotalDrawdown p)"
  by (simp_all add: active_manager_def new_FXIFYRulesEngine_def)

lemma validator_view_sel:
  "mo_isFXIFYModeActive (validator_view mgr now) = isActive mgr"
  "mo_getActiveProfile (validator_view mgr now) = Inr (activeProfile mgr)"
  "mo_getDrawdownStatus (validator_view mgr now) =
     Inr (getStatus (drawdownMonitor (rulesEngine mgr)) now)"
  "mo_currentBalance (validator_view mgr now) = Inr (re_currentBalance (rulesEngine mgr))"
  "mo_tradingCalendar (validator_view mgr now) = tradingCalendar (rulesEngine mgr)"
  by (simp_all add: validator_view_def)

lemma initialized_status:
  "iso_date t \<noteq> iso_date now \<or> t = now \<Longrightarrow> 0 < bal \<Longrightarrow> 0 < d \<Longrightarrow> 0 < tlim \<Longrightarrow>
   getStatus (initialize (new_DrawdownMonitor now) now bal d tlim) t =
     \<lparr>st_dailyDrawdown = 0, st_totalDrawdown = 0, st_dailyLimitExceeded = False,
      st_totalLimitExceeded = False, st_warningLevel = safe, st_currentBalance = bal,
      st_currentEquity = bal, st_initialBalance = bal, st_startOfDayBalance = bal,
      st_peakBalance = bal, st_maxDailyLimit = d, st_maxTotalLimit = tlim\<rparr>"
  by (auto simp add: getStatus_def initialize_def registerDayStart_def new_DrawdownMonitor_def
        getCurrentDailyDrawdown_def isDailyLimitExceeded_def isTotalLimitExceeded_def
        getWarningLevel_def Let_def)

lemma buy_order_loss:
  "estimatePotentialLoss mm buy_order = Num 250"
  by (simp add: estimatePotentialLoss_def buy_order_def num_or_def)

lemma saturday_refusal:
  "validateAgainstFXIFYRules (risk_adapter default_profile day1 10000) saturday buy_order =
     \<lparr>valid = False, rules = Some
        [\<lparr>rule = ''trading_hours'', severity = ''error'',
          message = Some ''Trading is not allowed during weekends'',
          details = HoursDetails 6 12 0\<rparr>]\<rparr>"
proof -
  have a: "isFXIFYModeActive (risk_adapter default_profile day1 10000)"
    by (simp add: isFXIFYModeActive_def risk_adapter_def active_manager_sel)
  have m: "fxifyModeManager (risk_adapter default_profile day1 10000) =
             active_manager default_profile day1 10000"
    by (simp add: risk_adapter_def)
  have dc: "checkDrawdownLimits (validator_view (active_manager default_profile day1 10000) saturday) (Num 250)
              = \<lparr>valid = True, rules = None\<rparr>"
    by (simp add: checkDrawdownLimits_def checkDrawdownLimits_try_def validator_view_sel
          active_manager_sel getAccountSize_def default_profile_def initialized_status
          day1_def saturday_def)
  have th: "checkTradingHours (validator_view (active_manager default_profile day1 10000) saturday)
              saturday (symbol buy_order) =
            \<lparr>valid = False, rules = Some
              [\<lparr>rule = ''trading_hours'', severity = ''error'',
                message = Some ''Trading is not allowed during weekends'',
                details = HoursDetails 6 12 0\<rparr>]\<rparr>"
    by (simp add: checkTradingHours_def checkTradingHours_try_def validator_view_sel
          active_manager_sel saturday_def)
  show ?thesis
    unfolding validateAgainstFXIFYRules_def m
      validateOrder_view [OF active_manager_sel(1,2)] buy_order_loss
    using a by (simp add: dc th)
qed

text \<open>
  An order placed on a Saturday is refused with the \<open>trading_hours\<close> violation.
\<close>

theorem placeMarketOrder_rule_violation_witness:
  "isFXIFYModeActive (risk_adapter default_profile day1 10000)
   \<and> \<not> valid (validateAgainstFXIFYRules (risk_adapter default_profile day1 10000) saturday buy_order)
   \<and> placeMarketOrder scenario4_bridge saturday (risk_adapter default_profile day1 10000) buy_order =
       (Inr (Refused ''FXIFY rule violation: Trading is not allowed during weekends''
               [\<lparr>rule = ''trading_hours'', severity = ''error'',
                 message = Some ''Trading is not allowed during weekends'',
                 details = HoursDetails 6 12 0\<rparr>]),
        (risk_adapter default_profile day1 10000)
          \<lparr>emitted := [RuleViolation
             [\<lparr>rule = ''trading_hours'', severity = ''error'',
               message = Some ''Trading is not allowed during weekends'',
               details = HoursDetails 6 12 0\<rparr>]]\<rparr>)
   \<and> written (snd (placeMarketOrder scenario4_bridge saturday
                      (risk_adapter default_profile day1 10000) buy_order)) = []"
proof -
  have a: "isFXIFYModeActive (risk_adapter default_profile day1 10000)"
    by (simp add: isFXIFYModeActive_def risk_adapter_def active_manager_sel)
  have n: "\<not> valid (validateAgainstFXIFYRules (risk_adapter default_profile day1 10000) saturday buy_order)"
    by (simp add: saturday_refusal)
  have e: "emitted (risk_adapter default_profile day1 10000) = []"
      "written (risk_adapter default_profile day1 10000) = []"
    by (simp_all add: risk_adapter_def new_MT5FXIFYAdapter_def)
  from placeMarketOrder_rule_violation [OF a n, of scenario4_bridge] a n
  show ?thesis
    unfolding saturday_refusal by (auto simp add: e)
qed

section \<open>Validation: exceptions\<close>

text \<open>What makes the \<open>try\<close> blocks of the validator throw.\<close>

lemma checkDrawdownLimits_try_throws:
  "checkDrawdownLimits_try mm pl = Inl e \<longleftrightarrow>
     mo_getActiveProfile mm = Inl e
     \<or> (\<exists>p. mo_getActiveProfile mm = Inr (Some p) \<and> mo_getDrawdownStatus mm = Inl e)"
  by (auto simp add: checkDrawdownLimits_try_def Let_def split: sum.splits option.splits)

lemma validateOrder_try_throws:
  "validateOrder_try mm now ord = Inl e \<longleftrightarrow>
     mo_getActiveProfile mm = Inl e
     \<or> (\<exists>p. mo_getActiveProfile mm = Inr (Some p)
            \<and> valid (checkDrawdownLimits mm (estimatePotentialLoss mm ord))
            \<and> valid (checkTradingHours mm now (symbol ord))
            \<and> mo_validateTradeAgainstRules mm
                  (with_potentialLoss ord (estimatePotentialLoss mm ord)) = Inl e)"
  by (auto simp add: validateOrder_try_def checkNewsEvents_proceed proceed_def Let_def
        split: sum.splits option.splits)

lemma evaluateTradeRequest_throws:
  assumes "(case prof of Some p \<Rightarrow> Some p | None \<Rightarrow> re_activeProfile eng) = Some p'"
    and "(n, ev) \<in> set (ruleEvaluators eng)"
    and "ev (drawdownMonitor eng) (tradingCalendar eng) now req p' = Inl e"
  shows "\<exists>e'. evaluateTradeRequest eng now req prof =
           \<lparr>valid = False, rules = Some
              [\<lparr>rule = ''system_error'', severity = ''error'',
                message = Some (''Error evaluating trade rules: '' @ exn_message e'),
                details = NoDetails\<rparr>]\<rparr>"
proof -
  from evaluate_rules_throws [OF assms(2,3), of "[]" "[]"]
  obtain e' where "evaluate_rules (ruleEvaluators eng) (drawdownMonitor eng) (tradingCalendar eng)
                     now req p' [] [] = Inl e'" ..
  with assms(1) have "evaluateTradeRequest_try eng now req prof = Inl e'"
    by (simp add: evaluateTradeRequest_try_def)
  then show ?thesis by (auto simp add: evaluateTradeRequest_def)
qed

text \<open>
  C1, as the claim states it, fails for \<open>checkDrawdownLimits\<close>: with a mode manager whose
  \<open>rulesEngine.getDrawdownStatus()\<close> throws, the \<open>try\<close> block of \<open>checkDrawdownLimits\<close>
  throws and its \<open>catch\<close> returns \<open>{valid: true}\<close>, with no violation; \<open>validateOrder\<close>
  goes on from that result and approves the order.
\<close>

theorem validation_exceptions_counterexample:
  "mo_isFXIFYModeActive failing_status_manager
   \<and> checkDrawdownLimits_try failing_status_manager (Num 250) =
       Inl (TypeError ''rulesEngine.getDrawdownStatus is not a function'')
   \<and> checkDrawdownLimits failing_status_manager (Num 250) = \<lparr>valid = True, rules = None\<rparr>
   \<and> validateOrder failing_status_manager day1 buy_order = \<lparr>valid = True, rules = Some []\<rparr>"
  by (simp add: failing_status_manager_def checkDrawdownLimits_def checkDrawdownLimits_try_def
        validateOrder_def validateOrder_try_def checkTradingHours_def checkTradingHours_try_def
        checkNewsEvents_proceed proceed_def day1_def Let_def)

section \<open>Validation: news events and trade size\<close>

lemma with_potentialLoss_sel:
  "symbol (with_potentialLoss ord pl) = symbol ord"
  "volume (with_potentialLoss ord pl) = volume ord"
  "potentialLoss (with_potentialLoss ord pl) = pl"
  by (simp_all add: with_potentialLoss_def)

lemma checkTradingHours_weekday:
  "utc_day now \<noteq> 0 \<Longrightarrow> utc_day now \<noteq> 6 \<Longrightarrow> valid (checkTradingHours mm now s)"
  by (simp add: checkTradingHours_def checkTradingHours_try_def Let_def
        split: sum.splits option.splits)

lemma evaluateTradeRequest_valid:
  assumes "valid (evaluateTradeRequest eng now req (Some p))"
    and "(n, ev) \<in> set (ruleEvaluators eng)"
  shows "\<exists>r. ev (drawdownMonitor eng) (tradingCalendar eng) now req p = Inr r \<and> ev_valid r"
proof (cases "evaluate_rules (ruleEvaluators eng) (drawdownMonitor eng) (tradingCalendar eng)
                now req p [] []")
  case (Inl e)
  with assms(1) show ?thesis
    by (simp add: evaluateTradeRequest_def evaluateTradeRequest_try_def)
next
  case (Inr r)
  obtain vs ws where r: "r = (vs, ws)" by (cases r)
  with assms(1) Inr have "length vs = length ([] :: violation list)"
    by (simp add: evaluateTradeRequest_def evaluateTradeRequest_try_def)
  from evaluate_rules_all_valid [OF Inr [unfolded r] this assms(2)] show ?thesis .
qed



lemma initialize_sel:
  "startOfDayBalance (initialize m now b d tlim) = b"
  "initialBalance (initialize m now b d tlim) = b"
  by (simp_all add: initialize_def registerDayStart_def)

lemma default_drawdown_evaluator_numeral:
  "0 < pl \<Longrightarrow> pl \<le> 300 \<Longrightarrow>
   p_maxDailyDrawdown p = 0.03 \<Longrightarrow> p_maxTotalDrawdown p = 0.06 \<Longrightarrow>
   drawdown_limit_evaluate (initialize (new_DrawdownMonitor day1) day1 10000 0.03 0.06) cal day1
     (with_potentialLoss ord (Num pl)) p = Inr ev_ok"
  by (simp add: drawdown_limit_evaluate_def potential_loss_check_def initialized_status
        with_potentialLoss_sel initialize_sel Let_def)

lemma default_drawdown_evaluator:
  assumes "0 < pl" and "pl \<le> 300" and "d = 0.03" and "tlim = 0.06"
    and "p_maxDailyDrawdown p = 0.03" and "p_maxTotalDrawdown p = 0.06"
  shows "drawdown_limit_evaluate (initialize (new_DrawdownMonitor day1) day1 10000 d tlim) cal day1
     (with_potentialLoss ord (Num pl)) p = Inr ev_ok"
  unfolding assms(3,4) by (rule default_drawdown_evaluator_numeral [OF assms(1,2,5,6)])






lemma trade_size_limit_not_exceeded:
  assumes "trade_size_limit_evaluate mon cal now req p = Inr r" and "ev_valid r"
    and "tradeSizeLimit p = Some l" and "0 < l" and "volume req = Some v"
  shows "\<not> l < v"
  using assms
  by (cases "v = 0") (auto simp add: trade_size_limit_evaluate_def truthy_num_def split: if_splits)

lemma sendCommand_written:
  "connected a \<Longrightarrow>
     written (snd (sendCommand a cmd answer)) = written a @ [(nextRequestId a, cmd)]"
  by (simp add: sendCommand_def send_request_def settle_def Let_def split: prod.splits)

lemma sendCommand_written_grows:
  "\<exists>rest. written (snd (sendCommand a cmd answer)) = written a @ rest"
  by (simp add: sendCommand_def send_request_def settle_def Let_def split: prod.splits)

lemma refreshDrawdownMonitor_written:
  "\<exists>rest. written (refreshDrawdownMonitor br now a) = written a @ rest"
proof -
  obtain r a1 where s: "sendCommand a GET_ACCOUNT_INFO (br_getAccountInfo br) = (r, a1)"
    by (cases "sendCommand a GET_ACCOUNT_INFO (br_getAccountInfo br)")
  from sendCommand_written_grows [of a GET_ACCOUNT_INFO "br_getAccountInfo br"] s
  obtain rest where "written a1 = written a @ rest" by auto
  then show ?thesis
    by (auto simp add: refreshDrawdownMonitor_def mt5_getAccountInfo_def s split: sum.splits)
qed

text \<open>
  C10 (amended): for an order that passes the validation under an active profile with a
  positive \<open>tradeSizeLimit\<close>, the \<open>trade_size_limit\<close> evaluator being registered,
  \<open>applyFXIFYConstraints\<close> changes the comment only: the volume is not clamped, the comment
  becomes \<open>'FXIFY: '\<close> followed by the original comment, or by \<open>'SAITRAPP'\<close> where the
  comment is absent or empty. \<open>placeMarketOrder\<close> delegates that order, and the frame written
  to the bridge carries the caller's volume.
\<close>

theorem constraints_keep_volume:
  assumes "isFXIFYModeActive a"
    and "activeProfile (fxifyModeManager a) = Some p"
    and "tradeSizeLimit p = Some l" and "0 < l"
    and "(n, trade_size_limit_evaluate) \<in> set (ruleEvaluators (rulesEngine (fxifyModeManager a)))"
    and "valid (validateAgainstFXIFYRules a now ord)"
  shows "applyFXIFYConstraints a ord =
           ord\<lparr>comment := Some (''FXIFY: '' @ str_or (comment ord) ''SAITRAPP'')\<rparr>
     \<and> fst (placeMarketOrder br now a ord) =
         map_sum id Placed
           (fst (mt5_placeMarketOrder br a
                   (ord\<lparr>comment := Some (''FXIFY: '' @ str_or (comment ord) ''SAITRAPP'')\<rparr>)))
     \<and> (connected a \<longrightarrow> direction ord = Some d \<longrightarrow>
          (\<exists>rest. written (snd (placeMarketOrder br now a ord)) =
             written a @
             [(nextRequestId a,
               PLACE_ORDER \<lparr>pp_type = ''MARKET'', pp_symbol = symbol ord, pp_volume = volume ord,
                             pp_direction = toUpperCase d, pp_stopLoss = stopLoss ord,
                             pp_takeProfit = takeProfit ord,
                             pp_comment = ''FXIFY: '' @ str_or (comment ord) ''SAITRAPP''\<rparr>)]
             @ rest))"
proof -
  define mgr where "mgr = fxifyModeManager a"
  define req where
    "req = with_potentialLoss ord (estimatePotentialLoss (validator_view mgr now) ord)"
  define ord' where
    "ord' = ord\<lparr>comment := Some (''FXIFY: '' @ str_or (comment ord) ''SAITRAPP'')\<rparr>"
  have act: "isActive mgr"
    using assms(1) by (simp add: isFXIFYModeActive_def mgr_def)
  have prof: "activeProfile mgr = Some p"
    using assms(2) by (simp add: mgr_def)
  have "valid (validateOrder (validator_view mgr now) now ord)"
    using assms(1,6) by (simp add: validateAgainstFXIFYRules_def mgr_def)
  then have "valid (evaluateTradeRequest (rulesEngine mgr) now req (Some p))"
    unfolding validateOrder_view [OF act prof, of now ord, folded req_def]
    by (simp split: if_splits)
  from evaluateTradeRequest_valid [OF this assms(5) [folded mgr_def]]
  obtain r where r: "trade_size_limit_evaluate (drawdownMonitor (rulesEngine mgr))
                       (tradingCalendar (rulesEngine mgr)) now req p = Inr r" "ev_valid r"
    by blast
  have noclamp: "\<not> l < v" if "volume ord = Some v" for v
    using trade_size_limit_not_exceeded [OF r assms(3,4), of v] that
    by (simp add: req_def with_potentialLoss_sel)
  have adj: "applyFXIFYConstraints a ord = ord'"
    using assms(1,2,3) noclamp
    by (simp add: applyFXIFYConstraints_def ord'_def Let_def split: option.splits)
  obtain res a1 where m: "mt5_placeMarketOrder br a ord' = (res, a1)"
    by (cases "mt5_placeMarketOrder br a ord'")
  have pm: "placeMarketOrder br now a ord =
              (case res of
                 Inl e \<Rightarrow> (Inl e, a1)
               | Inr orderResult \<Rightarrow>
                   (if or_success orderResult
                    then (Inr (Placed orderResult), refreshDrawdownMonitor br now a1)
                    else (Inr (Placed orderResult), a1)))"
    using assms(1,6) by (simp add: placeMarketOrder_def adj m Let_def)
  have res: "fst (placeMarketOrder br now a ord) = map_sum id Placed res"
    unfolding pm by (simp split: sum.splits)
  have wr: "\<exists>rest. written (snd (placeMarketOrder br now a ord)) =
             written a @
             [(nextRequestId a,
               PLACE_ORDER \<lparr>pp_type = ''MARKET'', pp_symbol = symbol ord, pp_volume = volume ord,
                             pp_direction = toUpperCase d, pp_stopLoss = stopLoss ord,
                             pp_takeProfit = takeProfit ord,
                             pp_comment = ''FXIFY: '' @ str_or (comment ord) ''SAITRAPP''\<rparr>)]
             @ rest"
    if c: "connected a" and dir: "direction ord = Some d"
  proof -
    define params where
      "params = \<lparr>pp_type = ''MARKET'', pp_symbol = symbol ord, pp_volume = volume ord,
                  pp_direction = toUpperCase d, pp_stopLoss = stopLoss ord,
                  pp_takeProfit = takeProfit ord,
                  pp_comment = ''FXIFY: '' @ str_or (comment ord) ''SAITRAPP''\<rparr>"
    have "market_order_params ord' = Inr params"
      using dir by (simp add: market_order_params_def ord'_def params_def str_or_def)
    with c have "mt5_placeMarketOrder br a ord' =
                   sendCommand a (PLACE_ORDER params) (br_placeOrder br params)"
      by (simp add: mt5_placeMarketOrder_def)
    with m have "a1 = snd (sendCommand a (PLACE_ORDER params) (br_placeOrder br params))"
      by simp
    then have "written a1 = written a @ [(nextRequestId a, PLACE_ORDER params)]"
      by (simp only: sendCommand_written [OF c])
    moreover obtain rest where "written (refreshDrawdownMonitor br now a1) = written a1 @ rest"
      using refreshDrawdownMonitor_written by blast
    ultimately show ?thesis
      unfolding pm params_def by (auto split: sum.splits)
  qed
  from adj res wr m show ?thesis
    unfolding ord'_def by auto
qed

lemma limited_manager_sel:
  "tradeSizeLimit (limited_profile l) = Some l"
  "p_maxDailyDrawdown (limited_profile l) = 0.03"
  "p_maxTotalDrawdown (limited_profile l) = 0.06"
  "\<not> allowNewsTrading (limited_profile l)"
  by (simp_all add: limited_profile_def default_profile_def)

lemma limited_drawdown_check:
  "0 \<le> pl \<Longrightarrow> pl \<le> 300 \<Longrightarrow>
   checkDrawdownLimits (validator_view (active_manager (limited_profile l) day1 10000) day1) (Num pl)
     = \<lparr>valid = True, rules = None\<rparr>"
  by (simp add: checkDrawdownLimits_def checkDrawdownLimits_try_def validator_view_sel
        active_manager_sel getAccountSize_def limited_manager_sel initialized_status)

lemma limited_drawdown_evaluator:
  assumes "0 < pl" and "pl \<le> 300" and "d = 0.03" and "tlim = 0.06"
  shows "drawdown_limit_evaluate (initialize (new_DrawdownMonitor day1) day1 10000 d tlim) cal day1
     (with_potentialLoss ord (Num pl)) (limited_profile l) = Inr ev_ok"
  by (rule default_drawdown_evaluator [OF assms limited_manager_sel(2,3)])

lemma limited_evaluation:
  assumes "0 < pl" and "pl \<le> 300"
    and "\<And>mon. trade_size_limit_evaluate mon None day1 (with_potentialLoss ord (Num pl))
                  (limited_profile l) = Inr ev_ok"
  shows "evaluateTradeRequest (rulesEngine (active_manager (limited_profile l) day1 10000)) day1
           (with_potentialLoss ord (Num pl)) (Some (limited_profile l))
         = \<lparr>valid = True, rules = Some []\<rparr>"
  by (simp add: evaluateTradeRequest_def evaluateTradeRequest_try_def active_manager_sel
        limited_manager_sel initializeRuleEvaluators_def limited_drawdown_evaluator [OF assms(1,2)]
        assms(3) news_trading_evaluate_def trading_days_evaluate_def ev_ok_def)

lemma zero_volume_loss:
  "estimatePotentialLoss (validator_view (active_manager p day1 10000) day1) zero_volume_order
     = Num 100"
  by (simp add: estimatePotentialLoss_def zero_volume_order_def buy_order_def getAccountSize_def
        validator_view_sel active_manager_sel)

text \<open>
  C10, as the claim states it, fails for a negative limit: with \<open>tradeSizeLimit = -1\<close>
  an order of volume 0 passes the validation (the evaluator skips a falsy volume) and
  \<open>applyFXIFYConstraints\<close> sets its volume to -1, since \<open>0 > -1\<close>.
\<close>

theorem constraints_keep_volume_counterexample:
  "isFXIFYModeActive (risk_adapter (limited_profile (- 1)) day1 10000)
   \<and> activeProfile (fxifyModeManager (risk_adapter (limited_profile (- 1)) day1 10000))
       = Some (limited_profile (- 1))
   \<and> tradeSizeLimit (limited_profile (- 1)) = Some (- 1)
   \<and> valid (validateAgainstFXIFYRules (risk_adapter (limited_profile (- 1)) day1 10000) day1
              zero_volume_order)
   \<and> volume zero_volume_order = Some 0
   \<and> volume (applyFXIFYConstraints (risk_adapter (limited_profile (- 1)) day1 10000)
               zero_volume_order) = Some (- 1)"
proof -
  have a: "isFXIFYModeActive (risk_adapter (limited_profile (- 1)) day1 10000)"
    and m: "fxifyModeManager (risk_adapter (limited_profile (- 1)) day1 10000) =
              active_manager (limited_profile (- 1)) day1 10000"
    by (simp_all add: isFXIFYModeActive_def risk_adapter_def active_manager_sel)
  have ts: "trade_size_limit_evaluate mon
           None day1 (with_potentialLoss zero_volume_order (Num 100)) (limited_profile (- 1))
           = Inr ev_ok" for mon
    by (simp add: trade_size_limit_evaluate_def with_potentialLoss_sel zero_volume_order_def
          truthy_num_def)
  have v: "validateAgainstFXIFYRules (risk_adapter (limited_profile (- 1)) day1 10000) day1
              zero_volume_order = \<lparr>valid = True, rules = Some []\<rparr>"
    unfolding validateAgainstFXIFYRules_def m
      validateOrder_view [OF active_manager_sel(1,2)] zero_volume_loss
    using a
    by (simp add: limited_drawdown_check checkTradingHours_weekday day1_def [THEN arg_cong, of utc_day]
          limited_evaluation [OF _ _ ts])
  have "volume (applyFXIFYConstraints (risk_adapter (limited_profile (- 1)) day1 10000)
               zero_volume_order) = Some (- 1)"
    using a by (simp add: applyFXIFYConstraints_def m active_manager_sel limited_manager_sel
                  zero_volume_order_def Let_def)
  with a m v show ?thesis
    by (simp add: active_manager_sel limited_manager_sel zero_volume_order_def)
qed

text \<open>
  Limit 1, volume 0.5: the order is delegated with volume 0.5 and the comment
  \<open>FXIFY: SAITRAPP\<close>.
\<close>

theorem constraints_keep_volume_witness:
  "isFXIFYModeActive (risk_adapter (limited_profile 1) day1 10000)
   \<and> activeProfile (fxifyModeManager (risk_adapter (limited_profile 1) day1 10000))
       = Some (limited_profile 1)
   \<and> tradeSizeLimit (limited_profile 1) = Some 1
   \<and> (''trade_size_limit'', trade_size_limit_evaluate)
       \<in> set (ruleEvaluators (rulesEngine (fxifyModeManager (risk_adapter (limited_profile 1) day1 10000))))
   \<and> valid (validateAgainstFXIFYRules (risk_adapter (limited_profile 1) day1 10000) day1 buy_order)
   \<and> connected (risk_adapter (limited_profile 1) day1 10000)
   \<and> direction buy_order = Some ''buy''
   \<and> applyFXIFYConstraints (risk_adapter (limited_profile 1) day1 10000) buy_order =
       buy_order\<lparr>comment := Some ''FXIFY: SAITRAPP''\<rparr>
   \<and> (\<exists>rest. written (snd (placeMarketOrder scenario4_bridge day1
                               (risk_adapter (limited_profile 1) day1 10000) buy_order)) =
         [(1, PLACE_ORDER \<lparr>pp_type = ''MARKET'', pp_symbol = Some ''EURUSD'',
                            pp_volume = Some 0.5, pp_direction = toUpperCase ''buy'',
                            pp_stopLoss = Some 1.095, pp_takeProfit = None,
                            pp_comment = ''FXIFY: SAITRAPP''\<rparr>)] @ rest)"
proof -
  have a: "isFXIFYModeActive (risk_adapter (limited_profile 1) day1 10000)"
    and m: "fxifyModeManager (risk_adapter (limited_profile 1) day1 10000) =
              active_manager (limited_profile 1) day1 10000"
    and c: "connected (risk_adapter (limited_profile 1) day1 10000)"
    and w: "written (risk_adapter (limited_profile 1) day1 10000) = []"
           "nextRequestId (risk_adapter (limited_profile 1) day1 10000) = 1"
    by (simp_all add: isFXIFYModeActive_def risk_adapter_def active_manager_sel
          new_MT5FXIFYAdapter_def)
  have p: "activeProfile (fxifyModeManager (risk_adapter (limited_profile 1) day1 10000))
       = Some (limited_profile 1)"
    by (simp add: m active_manager_sel)
  have reg: "(''trade_size_limit'', trade_size_limit_evaluate)
       \<in> set (ruleEvaluators (rulesEngine (fxifyModeManager (risk_adapter (limited_profile 1) day1 10000))))"
    by (simp add: m active_manager_sel initializeRuleEvaluators_def)
  have ts: "trade_size_limit_evaluate mon
           None day1 (with_potentialLoss buy_order (Num 250)) (limited_profile 1)
           = Inr ev_ok" for mon
    by (simp add: trade_size_limit_evaluate_def with_potentialLoss_sel buy_order_def
          truthy_num_def limited_manager_sel)
  have v: "valid (validateAgainstFXIFYRules (risk_adapter (limited_profile 1) day1 10000) day1
              buy_order)"
    unfolding validateAgainstFXIFYRules_def m
      validateOrder_view [OF active_manager_sel(1,2)] buy_order_loss
    using a
    by (simp add: limited_drawdown_check checkTradingHours_weekday day1_def [THEN arg_cong, of utc_day]
          limited_evaluation [OF _ _ ts])
  have l: "tradeSizeLimit (limited_profile 1) = Some 1" "(0::real) < 1"
    by (simp_all add: limited_manager_sel)
  have d: "direction buy_order = Some ''buy''" and cm: "str_or (comment buy_order) ''SAITRAPP'' = ''SAITRAPP''"
    and f: "symbol buy_order = Some ''EURUSD''" "volume buy_order = Some 0.5"
      "stopLoss buy_order = Some 1.095" "takeProfit buy_order = None"
    by (simp_all add: buy_order_def str_or_def)
  from constraints_keep_volume [OF a p l reg v, of scenario4_bridge "''buy''"] c d
  have "applyFXIFYConstraints (risk_adapter (limited_profile 1) day1 10000) buy_order =
       buy_order\<lparr>comment := Some ''FXIFY: SAITRAPP''\<rparr>"
    and "\<exists>rest. written (snd (placeMarketOrder scenario4_bridge day1
                               (risk_adapter (limited_profile 1) day1 10000) buy_order)) =
         [(1, PLACE_ORDER \<lparr>pp_type = ''MARKET'', pp_symbol = Some ''EURUSD'',
                            pp_volume = Some 0.5, pp_direction = toUpperCase ''buy'',
                            pp_stopLoss = Some 1.095, pp_takeProfit = None,
                            pp_comment = ''FXIFY: SAITRAPP''\<rparr>)] @ rest"
    unfolding cm w f by simp_all
  with a p l(1) reg v c d show ?thesis by blast
qed

section \<open>Validation: exceptions and the verdict\<close>

lemma checkDrawdownLimits_invalid_error:
  "\<not> valid (checkDrawdownLimits mm pl) \<Longrightarrow>
     \<exists>v. rules (checkDrawdownLimits mm pl) = Some [v] \<and> severity v = ''error''"
  by (auto simp add: checkDrawdownLimits_def checkDrawdownLimits_try_def Let_def
        split: if_splits sum.splits option.splits)

lemma checkTradingHours_invalid_error:
  "\<not> valid (checkTradingHours mm now s) \<Longrightarrow>
     \<exists>v. rules (checkTradingHours mm now s) = Some [v] \<and> severity v = ''error''"
  by (auto simp add: checkTradingHours_def checkTradingHours_try_def Let_def
        split: if_splits sum.splits option.splits)

lemma validateOrder_evaluator_throws:
  assumes "isActive mgr" and "activeProfile mgr = Some p"
    and "(n, ev) \<in> set (ruleEvaluators (rulesEngine mgr))"
    and "ev (drawdownMonitor (rulesEngine mgr)) (tradingCalendar (rulesEngine mgr)) now
           (with_potentialLoss ord (estimatePotentialLoss (validator_view mgr now) ord)) p = Inl e"
  shows "\<not> valid (validateOrder (validator_view mgr now) now ord)"
    and "\<exists>vs. rules (validateOrder (validator_view mgr now) now ord) = Some vs
              \<and> (\<exists>v \<in> set vs. severity v = ''error'')"
proof -
  note vo = validateOrder_view [OF assms(1,2), of now ord]
  have p: "(case Some p of Some p \<Rightarrow> Some p | None \<Rightarrow> re_activeProfile (rulesEngine mgr)) = Some p"
    by simp
  from evaluateTradeRequest_throws [OF p assms(3,4)] obtain e' where
    et: "evaluateTradeRequest (rulesEngine mgr) now
           (with_potentialLoss ord (estimatePotentialLoss (validator_view mgr now) ord)) (Some p) =
           \<lparr>valid = False, rules = Some
              [\<lparr>rule = ''system_error'', severity = ''error'',
                message = Some (''Error evaluating trade rules: '' @ exn_message e'),
                details = NoDetails\<rparr>]\<rparr>" ..
  have "\<not> valid (validateOrder (validator_view mgr now) now ord)
        \<and> (\<exists>vs. rules (validateOrder (validator_view mgr now) now ord) = Some vs
              \<and> (\<exists>v \<in> set vs. severity v = ''error''))"
  proof (cases "valid (checkDrawdownLimits (validator_view mgr now)
                     (estimatePotentialLoss (validator_view mgr now) ord))")
    case False
    from checkDrawdownLimits_invalid_error [OF this] False show ?thesis
      unfolding vo by auto
  next
    case dc: True
    show ?thesis
    proof (cases "valid (checkTradingHours (validator_view mgr now) now (symbol ord))")
      case False
      from checkTradingHours_invalid_error [OF this] False dc show ?thesis
        unfolding vo by auto
    next
      case True
      with dc show ?thesis
        unfolding vo by (simp add: et)
    qed
  qed
  then show "\<not> valid (validateOrder (validator_view mgr now) now ord)"
    and "\<exists>vs. rules (validateOrder (validator_view mgr now) now ord) = Some vs
              \<and> (\<exists>v \<in> set vs. severity v = ''error'')"
    by simp_all
qed

text \<open>
  C1 (amended): when a rule evaluator throws while an order is being validated, the
  result is fail-closed, \<open>valid = false\<close> with a violation of severity \<open>error\<close>: in
  \<open>evaluateTradeRequest\<close> (a profile being there to evaluate against) and in
  \<open>validateOrder\<close> on the mode manager of the adapter. So is the result of \<open>validateOrder\<close>
  when another exception reaches its \<open>catch\<close>: \<open>getActiveProfile()\<close> throwing, or
  \<open>validateTradeAgainstRules\<close> throwing once the earlier checks have passed. An exception
  inside \<open>checkDrawdownLimits\<close> is not: its own \<open>catch\<close> returns \<open>{valid: true}\<close> with no
  violation ("Default to allowing trade on error"), and \<open>validateOrder\<close> then returns what
  the later checks decide.
\<close>

theorem validation_exceptions:
  "((case prof of Some p \<Rightarrow> Some p | None \<Rightarrow> re_activeProfile eng) = Some p' \<longrightarrow>
      (n, ev) \<in> set (ruleEvaluators eng) \<longrightarrow>
      ev (drawdownMonitor eng) (tradingCalendar eng) now req p' = Inl e \<longrightarrow>
        \<not> valid (evaluateTradeRequest eng now req prof)
        \<and> (\<exists>vs. rules (evaluateTradeRequest eng now req prof) = Some vs
                 \<and> (\<exists>v \<in> set vs. severity v = ''error'')))
   \<and> (isActive mgr \<longrightarrow> activeProfile mgr = Some p1 \<longrightarrow>
      (n1, ev1) \<in> set (ruleEvaluators (rulesEngine mgr)) \<longrightarrow>
      ev1 (drawdownMonitor (rulesEngine mgr)) (tradingCalendar (rulesEngine mgr)) now
          (with_potentialLoss ord (estimatePotentialLoss (validator_view mgr now) ord)) p1 = Inl e1 \<longrightarrow>
        \<not> valid (validateOrder (validator_view mgr now) now ord)
        \<and> (\<exists>vs. rules (validateOrder (validator_view mgr now) now ord) = Some vs
                 \<and> (\<exists>v \<in> set vs. severity v = ''error'')))
   \<and> (mo_isFXIFYModeActive mm \<longrightarrow>
      (mo_getActiveProfile mm = Inl e2
       \<or> (\<exists>p. mo_getActiveProfile mm = Inr (Some p)
              \<and> valid (checkDrawdownLimits mm (estimatePotentialLoss mm ord))
              \<and> valid (checkTradingHours mm now (symbol ord))
              \<and> mo_validateTradeAgainstRules mm
                    (with_potentialLoss ord (estimatePotentialLoss mm ord)) = Inl e2)) \<longrightarrow>
        validateOrder mm now ord =
          \<lparr>valid = False, rules = Some
             [\<lparr>rule = ''validation_error'', severity = ''error'',
               message = Some (''Order validation error: '' @ exn_message e2),
               details = NoDetails\<rparr>]\<rparr>)
   \<and> (mo_isFXIFYModeActive mm \<longrightarrow>
      (mo_getActiveProfile mm = Inl e3
       \<or> (\<exists>p. mo_getActiveProfile mm = Inr (Some p) \<and> mo_getDrawdownStatus mm = Inl e3)) \<longrightarrow>
        checkDrawdownLimits mm pl = \<lparr>valid = True, rules = None\<rparr>)
   \<and> (mo_isFXIFYModeActive mm \<longrightarrow> mo_getActiveProfile mm = Inr (Some p2) \<longrightarrow>
      mo_getDrawdownStatus mm = Inl e4 \<longrightarrow>
      valid (checkTradingHours mm now (symbol ord)) \<longrightarrow>
      mo_validateTradeAgainstRules mm (with_potentialLoss ord (estimatePotentialLoss mm ord)) = Inr r \<longrightarrow>
        validateOrder mm now ord = r)"
proof (intro conjI impI)
  assume a: "(case prof of Some p \<Rightarrow> Some p | None \<Rightarrow> re_activeProfile eng) = Some p'"
    "(n, ev) \<in> set (ruleEvaluators eng)"
    "ev (drawdownMonitor eng) (tradingCalendar eng) now req p' = Inl e"
  from evaluateTradeRequest_throws [OF a] obtain e' where
    r: "evaluateTradeRequest eng now req prof =
           \<lparr>valid = False, rules = Some
              [\<lparr>rule = ''system_error'', severity = ''error'',
                message = Some (''Error evaluating trade rules: '' @ exn_message e'),
                details = NoDetails\<rparr>]\<rparr>" ..
  show "\<not> valid (evaluateTradeRequest eng now req prof)"
    by (simp add: r)
  show "\<exists>vs. rules (evaluateTradeRequest eng now req prof) = Some vs
                 \<and> (\<exists>v \<in> set vs. severity v = ''error'')"
    by (simp add: r)
next
  assume b: "isActive mgr" "activeProfile mgr = Some p1"
    "(n1, ev1) \<in> set (ruleEvaluators (rulesEngine mgr))"
    "ev1 (drawdownMonitor (rulesEngine mgr)) (tradingCalendar (rulesEngine mgr)) now
          (with_potentialLoss ord (estimatePotentialLoss (validator_view mgr now) ord)) p1 = Inl e1"
  show "\<not> valid (validateOrder (validator_view mgr now) now ord)"
    by (rule validateOrder_evaluator_throws(1) [OF b])
  show "\<exists>vs. rules (validateOrder (validator_view mgr now) now ord) = Some vs
                 \<and> (\<exists>v \<in> set vs. severity v = ''error'')"
    by (rule validateOrder_evaluator_throws(2) [OF b])
next
  assume "mo_isFXIFYModeActive mm"
    and "mo_getActiveProfile mm = Inl e2
       \<or> (\<exists>p. mo_getActiveProfile mm = Inr (Some p)
              \<and> valid (checkDrawdownLimits mm (estimatePotentialLoss mm ord))
              \<and> valid (checkTradingHours mm now (symbol ord))
              \<and> mo_validateTradeAgainstRules mm
                    (with_potentialLoss ord (estimatePotentialLoss mm ord)) = Inl e2)"
  then have "mo_isFXIFYModeActive mm" "validateOrder_try mm now ord = Inl e2"
    by (simp_all only: validateOrder_try_throws)
  then show "validateOrder mm now ord =
          \<lparr>valid = False, rules = Some
             [\<lparr>rule = ''validation_error'', severity = ''error'',
               message = Some (''Order validation error: '' @ exn_message e2),
               details = NoDetails\<rparr>]\<rparr>"
    by (simp add: validateOrder_def)
next
  assume "mo_isFXIFYModeActive mm"
    and "mo_getActiveProfile mm = Inl e3
       \<or> (\<exists>p. mo_getActiveProfile mm = Inr (Some p) \<and> mo_getDrawdownStatus mm = Inl e3)"
  then have "mo_isFXIFYModeActive mm" "checkDrawdownLimits_try mm pl = Inl e3"
    by (simp_all only: checkDrawdownLimits_try_throws)
  then show "checkDrawdownLimits mm pl = \<lparr>valid = True, rules = None\<rparr>"
    by (simp add: checkDrawdownLimits_def)
next
  assume c: "mo_isFXIFYModeActive mm" "mo_getActiveProfile mm = Inr (Some p2)"
    "mo_getDrawdownStatus mm = Inl e4"
    "valid (checkTradingHours mm now (symbol ord))"
    "mo_validateTradeAgainstRules mm (with_potentialLoss ord (estimatePotentialLoss mm ord)) = Inr r"
  have "checkDrawdownLimits_try mm (estimatePotentialLoss mm ord) = Inl e4"
    using c(2,3) by (simp add: checkDrawdownLimits_try_throws)
  with c(1) have dc: "checkDrawdownLimits mm (estimatePotentialLoss mm ord) = \<lparr>valid = True, rules = None\<rparr>"
    by (simp add: checkDrawdownLimits_def)
  show "validateOrder mm now ord = r"
    using c(1,2,4,5)
    by (simp add: validateOrder_def validateOrder_try_def dc checkNewsEvents_proceed proceed_def
          Let_def)
qed

lemma failing_manager_sel:
  "isActive failing_manager"
  "activeProfile failing_manager = Some default_profile"
  "tradingCalendar (rulesEngine failing_manager) = None"
  "ruleEvaluators (rulesEngine failing_manager) =
     initializeRuleEvaluators @ [(''custom_rule'', failing_evaluator)]"
  "re_currentBalance (rulesEngine failing_manager) = 10000"
  "drawdownMonitor (rulesEngine failing_manager) =
     initialize (new_DrawdownMonitor day1) day1 10000
       (p_maxDailyDrawdown default_profile) (p_maxTotalDrawdown default_profile)"
  by (simp_all add: failing_manager_def active_manager_def new_FXIFYRulesEngine_def)

lemma failing_manager_drawdown_check:
  "checkDrawdownLimits (validator_view failing_manager day1) (Num 250) = \<lparr>valid = True, rules = None\<rparr>"
  by (simp add: checkDrawdownLimits_def checkDrawdownLimits_try_def validator_view_sel
        failing_manager_sel getAccountSize_def default_profile_def initialized_status)

lemma failing_manager_result:
  "validateOrder (validator_view failing_manager day1) day1 buy_order =
     \<lparr>valid = False, rules = Some
        [\<lparr>rule = ''system_error'', severity = ''error'',
          message = Some ''Error evaluating trade rules: evaluator failed'',
          details = NoDetails\<rparr>]\<rparr>"
  unfolding validateOrder_view [OF failing_manager_sel(1,2)] buy_order_loss
  by (simp add: failing_manager_drawdown_check checkTradingHours_weekday day1_def [THEN arg_cong, of utc_day]
        evaluateTradeRequest_def evaluateTradeRequest_try_def failing_manager_sel
        initializeRuleEvaluators_def default_drawdown_evaluator default_profile_def
        trade_size_limit_evaluate_def truthy_num_def news_trading_evaluate_def
        trading_days_evaluate_def failing_evaluator_def ev_ok_def)

text \<open>
  A manager and an engine with a throwing evaluator, a mode manager whose
  \<open>getActiveProfile()\<close> throws, and one whose \<open>getDrawdownStatus()\<close> throws.
\<close>

theorem validation_exceptions_witness:
  "(''custom_rule'', failing_evaluator) \<in> set (ruleEvaluators failing_engine)
   \<and> failing_evaluator (drawdownMonitor failing_engine) (tradingCalendar failing_engine) day1
        (with_potentialLoss buy_order (Num 250)) default_profile = Inl (Error ''evaluator failed'')
   \<and> \<not> valid (evaluateTradeRequest failing_engine day1 (with_potentialLoss buy_order (Num 250))
                 (Some default_profile))
   \<and> isActive failing_manager
   \<and> activeProfile failing_manager = Some default_profile
   \<and> (''custom_rule'', failing_evaluator) \<in> set (ruleEvaluators (rulesEngine failing_manager))
   \<and> \<not> valid (validateOrder (validator_view failing_manager day1) day1 buy_order)
   \<and> validateOrder (validator_view failing_manager day1) day1 buy_order =
       \<lparr>valid = False, rules = Some
          [\<lparr>rule = ''system_error'', severity = ''error'',
            message = Some ''Error evaluating trade rules: evaluator failed'',
            details = NoDetails\<rparr>]\<rparr>
   \<and> mo_isFXIFYModeActive failing_profile_manager
   \<and> mo_getActiveProfile failing_profile_manager = Inl (Error ''profile store unavailable'')
   \<and> validateOrder failing_profile_manager day1 buy_order =
       \<lparr>valid = False, rules = Some
          [\<lparr>rule = ''validation_error'', severity = ''error'',
            message = Some ''Order validation error: profile store unavailable'',
            details = NoDetails\<rparr>]\<rparr>
   \<and> checkDrawdownLimits failing_profile_manager (Num 250) = \<lparr>valid = True, rules = None\<rparr>
   \<and> mo_isFXIFYModeActive failing_status_manager
   \<and> mo_getActiveProfile failing_status_manager = Inr (Some default_profile)
   \<and> mo_getDrawdownStatus failing_status_manager =
       Inl (TypeError ''rulesEngine.getDrawdownStatus is not a function'')
   \<and> valid (checkTradingHours failing_status_manager day1 (symbol buy_order))
   \<and> checkDrawdownLimits failing_status_manager (Num 250) = \<lparr>valid = True, rules = None\<rparr>
   \<and> validateOrder failing_status_manager day1 buy_order = \<lparr>valid = True, rules = Some []\<rparr>"
proof -
  have 1: "(case Some default_profile of Some p \<Rightarrow> Some p | None \<Rightarrow> re_activeProfile failing_engine)
             = Some default_profile"
    by simp
  have 2: "(''custom_rule'', failing_evaluator) \<in> set (ruleEvaluators failing_engine)"
    by (simp add: failing_engine_def new_FXIFYRulesEngine_def)
  have 3: "failing_evaluator mon cal day1 rq default_profile = Inl (Error ''evaluator failed'')"
    for mon cal rq
    by (simp add: failing_evaluator_def)
  have 4: "(''custom_rule'', failing_evaluator) \<in> set (ruleEvaluators (rulesEngine failing_manager))"
    by (simp add: failing_manager_sel)
  have 5: "mo_isFXIFYModeActive failing_profile_manager"
    "mo_getActiveProfile failing_profile_manager = Inl (Error ''profile store unavailable'')"
    by (simp_all add: failing_profile_manager_def failing_status_manager_def)
  have 6: "mo_isFXIFYModeActive failing_status_manager"
    "mo_getActiveProfile failing_status_manager = Inr (Some default_profile)"
    "mo_getDrawdownStatus failing_status_manager =
       Inl (TypeError ''rulesEngine.getDrawdownStatus is not a function'')"
    "mo_validateTradeAgainstRules failing_status_manager
       (with_potentialLoss buy_order (estimatePotentialLoss failing_status_manager buy_order))
       = Inr \<lparr>valid = True, rules = Some []\<rparr>"
    by (simp_all add: failing_status_manager_def)
  have 7: "valid (checkTradingHours failing_status_manager day1 (symbol buy_order))"
    by (rule checkTradingHours_weekday) (simp_all add: day1_def)
  note A = validation_exceptions
    [where prof = "Some default_profile" and eng = failing_engine and p' = default_profile
       and n = "''custom_rule''" and ev = failing_evaluator and now = day1
       and req = "with_potentialLoss buy_order (Num 250)" and e = "Error ''evaluator failed''"
       and mgr = failing_manager and ?p1.0 = default_profile and ?n1.0 = "''custom_rule''"
       and ?ev1.0 = failing_evaluator and ?e1.0 = "Error ''evaluator failed''"
       and ord = buy_order and mm = failing_profile_manager
       and ?e2.0 = "Error ''profile store unavailable''"
       and ?e3.0 = "Error ''profile store unavailable''" and pl = "Num 250"]
  note B = validation_exceptions
    [where mm = failing_status_manager and ord = buy_order and now = day1 and pl = "Num 250"
       and ?e3.0 = "TypeError ''rulesEngine.getDrawdownStatus is not a function''"
       and ?e4.0 = "TypeError ''rulesEngine.getDrawdownStatus is not a function''"
       and ?p2.0 = default_profile and r = "\<lparr>valid = True, rules = Some []\<rparr>"]
  have a: "\<not> valid (evaluateTradeRequest failing_engine day1 (with_potentialLoss buy_order (Num 250))
                 (Some default_profile))"
    using A 1 2 3 by blast
  have b: "\<not> valid (validateOrder (validator_view failing_manager day1) day1 buy_order)"
    using A failing_manager_sel(1,2) 4 3 by blast
  have c: "validateOrder failing_profile_manager day1 buy_order =
       \<lparr>valid = False, rules = Some
          [\<lparr>rule = ''validation_error'', severity = ''error'',
            message = Some (''Order validation error: '' @ exn_message (Error ''profile store unavailable'')),
            details = NoDetails\<rparr>]\<rparr>"
    using A 5 by blast
  have d: "checkDrawdownLimits failing_profile_manager (Num 250) = \<lparr>valid = True, rules = None\<rparr>"
    using A 5 by blast
  have e: "checkDrawdownLimits failing_status_manager (Num 250) = \<lparr>valid = True, rules = None\<rparr>"
    using B 6(1,2,3) by blast
  have f: "validateOrder failing_status_manager day1 buy_order = \<lparr>valid = True, rules = Some []\<rparr>"
    using B 6 7 by blast
  from c have c': "validateOrder failing_profile_manager day1 buy_order =
       \<lparr>valid = False, rules = Some
          [\<lparr>rule = ''validation_error'', severity = ''error'',
            message = Some ''Order validation error: profile store unavailable'',
            details = NoDetails\<rparr>]\<rparr>"
    by simp
  show ?thesis
    using 2 3 a failing_manager_sel(1,2) 4 b failing_manager_result 5 c' d 6(1,2,3) 7 e f
    by (intro conjI)
qed

end
